theory Spec2Isabelle
  imports Main
begin

section \<open>Values\<close>

text \<open>
  Bundles, orders, action objects and service responses are JSON documents: they come
  from \<^verbatim>\<open>resp.json()\<close>, \<^verbatim>\<open>json.load\<close> and \<^verbatim>\<open>json.loads\<close>. A JSON object is a Python
  dict; it is represented by its items in insertion order. JSON numbers are modelled as
  Python integers; non-integral numbers (floats) are outside this model. A string is a
  Python \<^verbatim>\<open>str\<close>, character by character; a character is a code point below 256.
\<close>

datatype json =
    JNull
  | JBool bool
  | JInt int
  | JStr string
  | JArr "json list"
  | JObj "(string \<times> json) list"

text \<open>
  Exceptions. \<open>RuntimeError\<close> is the one the pipeline raises itself; every other
  exception class is \<open>OtherError\<close>. Both carry \<^verbatim>\<open>str(e)\<close>.
\<close>

datatype exn = RuntimeError string | OtherError string

fun str_exn :: "exn \<Rightarrow> string" where
  "str_exn (RuntimeError m) = m"
| "str_exn (OtherError m) = m"

text \<open>Python truthiness (\<^verbatim>\<open>not x\<close> is its negation).\<close>

fun truthy :: "json \<Rightarrow> bool" where
  "truthy JNull = False"
| "truthy (JBool b) = b"
| "truthy (JInt n) = (n \<noteq> 0)"
| "truthy (JStr s) = (s \<noteq> [])"
| "truthy (JArr xs) = (xs \<noteq> [])"
| "truthy (JObj kvs) = (kvs \<noteq> [])"


text \<open>The name Python prints for a value's class, and a text in single quotes.\<close>

fun type_name :: "json \<Rightarrow> string" where
  "type_name JNull = ''NoneType''"
| "type_name (JBool b) = ''bool''"
| "type_name (JInt n) = ''int''"
| "type_name (JStr s) = ''str''"
| "type_name (JArr xs) = ''list''"
| "type_name (JObj kvs) = ''dict''"

definition quoted :: "string \<Rightarrow> string" where
  "quoted s = CHR 0x27 # s @ [CHR 0x27]"

definition dquoted :: "string \<Rightarrow> string" where
  "dquoted s = CHR 0x22 # s @ [CHR 0x22]"

section \<open>Dictionaries\<close>

text \<open>
  A Python dict keeps its keys in the order of their first insertion; assigning to a key
  that is already there replaces the value where it stands. Looking a key up is \<open>map_of\<close>.
\<close>

fun dict_set :: "('k \<times> 'v) list \<Rightarrow> 'k \<Rightarrow> 'v \<Rightarrow> ('k \<times> 'v) list" where
  "dict_set [] k v = [(k, v)]"
| "dict_set ((k', v') # d) k v =
     (if k' = k then (k', v) # d else (k', v') # dict_set d k v)"

text \<open>
  Keys of a dict are compared by \<^verbatim>\<open>hash\<close> and \<^verbatim>\<open>==\<close>: \<^verbatim>\<open>True\<close> and \<^verbatim>\<open>1\<close> are one key,
  \<^verbatim>\<open>False\<close> and \<^verbatim>\<open>0\<close> another. \<open>hash_key\<close> gives the class of a value under that
  comparison; a list or a dict is unhashable and using it as a key raises TypeError.
\<close>

datatype pykey = KNone | KInt int | KStr string

fun hash_key :: "json \<Rightarrow> exn + pykey" where
  "hash_key JNull = Inr KNone"
| "hash_key (JBool b) = Inr (KInt (if b then 1 else 0))"
| "hash_key (JInt n) = Inr (KInt n)"
| "hash_key (JStr s) = Inr (KStr s)"
| "hash_key (JArr xs) = Inl (OtherError (''unhashable type: '' @ quoted ''list''))"
| "hash_key (JObj kvs) = Inl (OtherError (''unhashable type: '' @ quoted ''dict''))"

section \<open>Bundle merge and dedup (the block inside \<^verbatim>\<open>execute_action\<close>)\<close>

text \<open>
  \<^verbatim>\<open>bundle_key\<close>: \<^verbatim>\<open>None\<close> for a value that is not a dict; the value of
  \<^verbatim>\<open>"placeholder"\<close> when that key is in the dict; otherwise \<^verbatim>\<open>bundle.get("id")\<close>.
  Python's \<^verbatim>\<open>None\<close> is \<open>JNull\<close>.
\<close>

fun bundle_key :: "json \<Rightarrow> json" where
  "bundle_key (JObj kvs) =
     (case map_of kvs ''placeholder'' of
        Some v \<Rightarrow> v
      | None \<Rightarrow> (case map_of kvs ''id'' of Some v \<Rightarrow> v | None \<Rightarrow> JNull))"
| "bundle_key _ = JNull"

text \<open>
  The loop over \<^verbatim>\<open>combined_bundles\<close>: a bundle whose key is falsy is skipped
  (\<^verbatim>\<open>if not key: continue\<close>); otherwise \<^verbatim>\<open>unique_bundles_dict[key] = bundle\<close>, which
  raises TypeError on an unhashable key.
\<close>

fun merge_loop :: "(pykey \<times> json) list \<Rightarrow> json list \<Rightarrow> exn + (pykey \<times> json) list" where
  "merge_loop d [] = Inr d"
| "merge_loop d (bundle # rest) =
     (let key = bundle_key bundle in
      if \<not> truthy key then merge_loop d rest
      else (case hash_key key of
              Inl e \<Rightarrow> Inl e
            | Inr k \<Rightarrow> merge_loop (dict_set d k bundle) rest))"

text \<open>
  The loop from the empty dict and \<^verbatim>\<open>final_bundles = list(unique_bundles_dict.values())\<close>;
  \<open>merge_bundles\<close> is the step for two lists,
  \<^verbatim>\<open>combined_bundles = state["bundles"] + new_bundles\<close>.
\<close>

definition merge_combined :: "json list \<Rightarrow> exn + json list" where
  "merge_combined combined_bundles =
     (case merge_loop [] combined_bundles of
        Inl e \<Rightarrow> Inl e
      | Inr unique_bundles_dict \<Rightarrow> Inr (map snd unique_bundles_dict))"

definition merge_bundles :: "json list \<Rightarrow> json list \<Rightarrow> exn + json list" where
  "merge_bundles state_bundles new_bundles = merge_combined (state_bundles @ new_bundles)"


section \<open>Python operations on JSON values\<close>

text \<open>
  \<^verbatim>\<open>x[k]\<close> with a string \<open>k\<close>: KeyError when the dict lacks the key (its text is the
  key in quotes), TypeError for every value that is not a dict.
\<close>

fun subscript :: "json \<Rightarrow> string \<Rightarrow> exn + json" where
  "subscript (JObj kvs) k =
     (case map_of kvs k of Some v \<Rightarrow> Inr v | None \<Rightarrow> Inl (OtherError (quoted k)))"
| "subscript (JArr xs) k = Inl (OtherError ''list indices must be integers or slices, not str'')"
| "subscript (JStr s) k = Inl (OtherError (''string indices must be integers, not '' @ quoted ''str''))"
| "subscript v k = Inl (OtherError (quoted (type_name v) @ '' object is not subscriptable''))"

text \<open>\<^verbatim>\<open>x.get(k, default)\<close>: AttributeError for a value that is not a dict.\<close>

fun dot_get :: "json \<Rightarrow> string \<Rightarrow> json \<Rightarrow> exn + json" where
  "dot_get (JObj kvs) k dflt = Inr (case map_of kvs k of Some v \<Rightarrow> v | None \<Rightarrow> dflt)"
| "dot_get v k dflt =
     Inl (OtherError (quoted (type_name v) @ '' object has no attribute '' @ quoted ''get''))"

text \<open>\<^verbatim>\<open>len(x)\<close>: strings, lists and dicts have one.\<close>

fun py_len :: "json \<Rightarrow> exn + nat" where
  "py_len (JStr s) = Inr (length s)"
| "py_len (JArr xs) = Inr (length xs)"
| "py_len (JObj kvs) = Inr (length kvs)"
| "py_len v = Inl (OtherError (''object of type '' @ quoted (type_name v) @ '' has no len()''))"

text \<open>
  What \<^verbatim>\<open>list.extend(x)\<close> appends: the elements of a list, the characters of a string,
  the keys of a dict; TypeError for a value that cannot be iterated.
\<close>

fun py_iter :: "json \<Rightarrow> exn + json list" where
  "py_iter (JArr xs) = Inr xs"
| "py_iter (JStr s) = Inr (map (\<lambda>c. JStr [c]) s)"
| "py_iter (JObj kvs) = Inr (map (\<lambda>kv. JStr (fst kv)) kvs)"
| "py_iter v = Inl (OtherError (quoted (type_name v) @ '' object is not iterable''))"

text \<open>\<^verbatim>\<open>x + new_bundles\<close> with a list on the right: only a list on the left can be added.\<close>

fun plus_list :: "json \<Rightarrow> json list \<Rightarrow> exn + json list" where
  "plus_list (JArr xs) ys = Inr (xs @ ys)"
| "plus_list (JStr s) ys =
     Inl (OtherError (''can only concatenate str (not '' @ dquoted ''list'' @ '') to str''))"
| "plus_list v ys =
     Inl (OtherError (''unsupported operand type(s) for +: '' @ quoted (type_name v) @
                      '' and '' @ quoted ''list''))"

text \<open>
  \<^verbatim>\<open>d.get(key)\<close> on a dict whose keys are strings, for a key that is any JSON value: the
  key is hashed first (TypeError if it cannot be), and only a string can be found.
\<close>

definition str_dict_get :: "(string \<times> 'v) list \<Rightarrow> json \<Rightarrow> exn + 'v option" where
  "str_dict_get d key =
     (case hash_key key of
        Inl e \<Rightarrow> Inl e
      | Inr k \<Rightarrow> Inr (case k of KStr s \<Rightarrow> map_of d s | _ \<Rightarrow> None))"

text \<open>\<^verbatim>\<open>{**d, k1: v1, ...}\<close>: the items of \<open>d\<close>, then the assignments from left to right.\<close>

definition dict_with :: "(string \<times> json) list \<Rightarrow> (string \<times> json) list \<Rightarrow> (string \<times> json) list" where
  "dict_with d items = foldl (\<lambda>acc kv. dict_set acc (fst kv) (snd kv)) d items"

subsection \<open>Decimal text of integers\<close>

definition digit_char :: "nat \<Rightarrow> char" where
  "digit_char d = ''0123456789'' ! d"

fun dec_nat :: "nat \<Rightarrow> string" where
  "dec_nat n = (if n < 10 then [digit_char n] else dec_nat (n div 10) @ [digit_char (n mod 10)])"

declare dec_nat.simps [simp del]

definition zfill :: "nat \<Rightarrow> string \<Rightarrow> string" where
  "zfill w s = replicate (w - length s) CHR ''0'' @ s"

text \<open>
  The format \<^verbatim>\<open>{n:03d}\<close>: decimal, filled with zeros after the sign to a width of at
  least three characters, the sign included.
\<close>

definition format_03d :: "int \<Rightarrow> string" where
  "format_03d n =
     (if n < 0 then CHR ''-'' # zfill 2 (dec_nat (nat (- n))) else zfill 3 (dec_nat (nat n)))"

definition str_int :: "int \<Rightarrow> string" where
  "str_int n = (if n < 0 then CHR ''-'' # dec_nat (nat (- n)) else dec_nat (nat n))"


section \<open>Sequencing and \<^verbatim>\<open>try\<close>/\<^verbatim>\<open>except\<close>\<close>

text \<open>
  A computation that may raise returns \<open>exn + 'a\<close>. \<open>try_bind\<close> runs the next statement
  unless the first one raised. \<open>except_as\<close> is the handler
  \<^verbatim>\<open>except Exception as e: raise RuntimeError(f"<prefix>{e}")\<close>.
\<close>

definition try_bind :: "exn + 'a \<Rightarrow> ('a \<Rightarrow> exn + 'b) \<Rightarrow> exn + 'b" where
  "try_bind m f = (case m of Inl e \<Rightarrow> Inl e | Inr x \<Rightarrow> f x)"

definition except_as :: "string \<Rightarrow> exn + 'a \<Rightarrow> exn + 'a" where
  "except_as prefix m =
     (case m of Inl e \<Rightarrow> Inl (RuntimeError (prefix @ str_exn e)) | Inr x \<Rightarrow> Inr x)"

text \<open>\<^verbatim>\<open>state["name"]\<close>: KeyError when the state has no such key yet.\<close>

definition state_field :: "string \<Rightarrow> 'a option \<Rightarrow> exn + 'a" where
  "state_field name v = (case v of None \<Rightarrow> Inl (OtherError (quoted name)) | Some x \<Rightarrow> Inr x)"

section \<open>The order store\<close>

text \<open>
  The globals \<^verbatim>\<open>ORDERS_DB\<close>, \<^verbatim>\<open>BUNDLES_STORAGE\<close> and \<^verbatim>\<open>ORDER_COUNTER\<close>, and what the two
  files hold (\<open>None\<close>: no file yet). An order is a dict of fields. A bundle set is what
  stage 1 received from the redaction service, any JSON value.
\<close>

record store =
  ORDERS_DB :: "(string \<times> (string \<times> json) list) list"
  BUNDLES_STORAGE :: "(string \<times> json) list"
  ORDER_COUNTER :: int
  db_file :: "((string \<times> (string \<times> json) list) list \<times> int) option"
  bundles_file :: "(string \<times> json) list option"

definition fresh_store :: store where
  "fresh_store =
     \<lparr>ORDERS_DB = [], BUNDLES_STORAGE = [], ORDER_COUNTER = 1, db_file = None,
      bundles_file = None\<rparr>"

text \<open>
  Writing a file can fail with OSError; whether it does is an input of the model
  (\<open>Some\<close> the error's text). A failed write leaves the model's file as it was.
\<close>

definition save_db :: "string option \<Rightarrow> store \<Rightarrow> exn + store" where
  "save_db failure s =
     (case failure of
        Some m \<Rightarrow> Inl (OtherError m)
      | None \<Rightarrow> Inr (s\<lparr>db_file := Some (ORDERS_DB s, ORDER_COUNTER s)\<rparr>))"

definition save_bundles :: "string option \<Rightarrow> string \<Rightarrow> json \<Rightarrow> store \<Rightarrow> (exn + unit) \<times> store" where
  "save_bundles failure order_id bundles s =
     (let s1 = s\<lparr>BUNDLES_STORAGE := dict_set (BUNDLES_STORAGE s) order_id bundles\<rparr> in
      case failure of
        Some m \<Rightarrow> (Inl (OtherError m), s1)
      | None \<Rightarrow> (Inr (), s1\<lparr>bundles_file := Some (BUNDLES_STORAGE s1)\<rparr>))"

definition get_bundles :: "store \<Rightarrow> json \<Rightarrow> exn + json" where
  "get_bundles s order_id =
     try_bind (str_dict_get (BUNDLES_STORAGE s) order_id) (\<lambda>found.
       let bundles = (case found of Some b \<Rightarrow> b | None \<Rightarrow> JArr []) in
       try_bind (py_len bundles) (\<lambda>n. Inr bundles))"

definition not_found :: "(string \<times> json) list" where
  "not_found = [(''error'', JStr ''Order not found'')]"

definition get_order :: "store \<Rightarrow> json \<Rightarrow> exn + (string \<times> json) list" where
  "get_order s order_id =
     try_bind (str_dict_get (ORDERS_DB s) order_id) (\<lambda>found.
       case found of
         None \<Rightarrow> Inr not_found
       | Some order \<Rightarrow>
           if order = [] then Inr not_found
           else Inr (dict_with order [(''order_id'', order_id)]))"

definition get_all_orders :: "store \<Rightarrow> (string \<times> json) list" where
  "get_all_orders s =
     (let orders_list =
            map (\<lambda>(order_id, order). JObj (dict_with order [(''order_id'', JStr order_id)]))
              (ORDERS_DB s)
      in [(''orders'', JArr orders_list), (''total'', JInt (int (length orders_list)))])"

text \<open>
  \<^verbatim>\<open>create_order\<close>. \<open>now\<close> is the text of \<^verbatim>\<open>datetime.now().strftime(...)\<close>; the store is
  returned as the call leaves it, also when a write raised.
\<close>

definition create_order ::
  "string \<Rightarrow> string option \<Rightarrow> string option \<Rightarrow>
   json \<Rightarrow> json \<Rightarrow> json \<Rightarrow> json \<Rightarrow> json \<Rightarrow> json \<Rightarrow> store \<Rightarrow>
   (exn + (string \<times> json) list) \<times> store" where
  "create_order now db_write bundles_write customer email phone address items bundles s =
     (let order_id = ''ORD-'' @ format_03d (ORDER_COUNTER s);
          s1 = s\<lparr>ORDER_COUNTER := ORDER_COUNTER s + 1\<rparr>;
          s2 = s1\<lparr>ORDERS_DB := dict_set (ORDERS_DB s1) order_id
                 [(''customer'', customer), (''email'', email), (''phone'', phone),
                  (''address'', address), (''items'', items),
                  (''status'', JStr ''processing''), (''created_at'', JStr now)]\<rparr>
      in case save_db db_write s2 of
           Inl e \<Rightarrow> (Inl e, s2)
         | Inr s3 \<Rightarrow>
             (case save_bundles bundles_write order_id bundles s3 of
                (Inl e, s4) \<Rightarrow> (Inl e, s4)
              | (Inr u, s4) \<Rightarrow>
                  (Inr [(''order_id'', JStr order_id), (''status'', JStr ''created'')], s4)))"


section \<open>The outside world\<close>

text \<open>
  The remote calls and library functions the code uses are inputs of the model.
  A request to the redaction service is its endpoint with the fields of its payload:
  \<open>Detect_encrypt tenant text\<close> (threshold and schema are constants of the call) and
  \<open>Decrypt tenant text_with_placeholders bundles\<close>. The outcome of
  \<^verbatim>\<open>requests.post\<close> is a transport error with its text, or a response: status code, the
  text \<^verbatim>\<open>raise_for_status\<close> raises with if the status is an error, and what
  \<^verbatim>\<open>resp.json()\<close> gives (\<open>Inl\<close> the text of its decoding error).
  A prompt is the template with the values the f-string interpolates.
  \<open>json_dumps\<close> takes the flag \<^verbatim>\<open>ensure_ascii\<close> first.
\<close>

datatype request = Detect_encrypt string string | Decrypt json json json

datatype http_outcome = Transport_error string | Http_response nat string "string + json"

datatype prompt = Action_prompt json | Reply_prompt json string

record env =
  TENANT :: string
  generate_content :: "prompt \<Rightarrow> exn + string"
  post :: "request \<Rightarrow> http_outcome"
  json_dumps :: "bool \<Rightarrow> json \<Rightarrow> string"
  json_loads :: "string \<Rightarrow> exn + json"
  repr :: "json \<Rightarrow> string"
  now :: string
  db_write :: "string option"
  bundles_write :: "string option"

text \<open>
  \<^verbatim>\<open>resp = requests.post(...); resp.raise_for_status(); resp.json()\<close>:
  \<^verbatim>\<open>raise_for_status\<close> raises for a status from 400 to 599.
\<close>

fun response_json :: "http_outcome \<Rightarrow> exn + json" where
  "response_json (Transport_error m) = Inl (OtherError m)"
| "response_json (Http_response status http_error body) =
     (if 400 \<le> status \<and> status < 600 then Inl (OtherError http_error)
      else (case body of Inl m \<Rightarrow> Inl (OtherError m) | Inr data \<Rightarrow> Inr data))"

text \<open>\<^verbatim>\<open>str(x)\<close> as an f-string prints it; lists and dicts by \<^verbatim>\<open>repr\<close>.\<close>

fun py_str :: "(json \<Rightarrow> string) \<Rightarrow> json \<Rightarrow> string" where
  "py_str r JNull = ''None''"
| "py_str r (JBool b) = (if b then ''True'' else ''False'')"
| "py_str r (JInt n) = str_int n"
| "py_str r (JStr s) = s"
| "py_str r v = r v"

text \<open>\<^verbatim>\<open>json.loads(x)\<close>: TypeError unless \<open>x\<close> is a string.\<close>

fun loads_value :: "(string \<Rightarrow> exn + json) \<Rightarrow> json \<Rightarrow> exn + json" where
  "loads_value loads (JStr s) = loads s"
| "loads_value loads v =
     Inl (OtherError (''the JSON object must be str, bytes or bytearray, not '' @ type_name v))"

text \<open>\<^verbatim>\<open>{**x, ...}\<close>: TypeError unless \<open>x\<close> is a dict.\<close>

fun as_mapping :: "json \<Rightarrow> exn + (string \<times> json) list" where
  "as_mapping (JObj kvs) = Inr kvs"
| "as_mapping v = Inl (OtherError (quoted (type_name v) @ '' object is not a mapping''))"

subsection \<open>String search and slicing\<close>

text \<open>
  \<^verbatim>\<open>str.find\<close> and \<^verbatim>\<open>str.rfind\<close> for one character (\<open>-1\<close> when it is not there),
  \<^verbatim>\<open>s[a:b]\<close> with Python's treatment of negative and too large indices, and
  \<^verbatim>\<open>str.strip()\<close>, which removes the characters Python counts as whitespace from both
  ends: among the code points below 256 these are U+0009 to U+000D, U+001C to U+0020,
  U+0085 and U+00A0.
\<close>

primrec py_find :: "string \<Rightarrow> char \<Rightarrow> int" where
  "py_find [] c = - 1"
| "py_find (x # xs) c =
     (if x = c then 0 else (let r = py_find xs c in if r < 0 then - 1 else r + 1))"

definition py_rfind :: "string \<Rightarrow> char \<Rightarrow> int" where
  "py_rfind s c = (let r = py_find (rev s) c in if r < 0 then - 1 else int (length s) - 1 - r)"

definition slice_index :: "int \<Rightarrow> nat \<Rightarrow> nat" where
  "slice_index i n = (if i < 0 then nat (max (i + int n) 0) else min (nat i) n)"

definition py_slice :: "string \<Rightarrow> int \<Rightarrow> int \<Rightarrow> string" where
  "py_slice s a b =
     (let lo = slice_index a (length s); hi = slice_index b (length s)
      in take (hi - lo) (drop lo s))"

definition is_space :: "char \<Rightarrow> bool" where
  "is_space c =
     (c \<in> set [CHR 0x09, CHR 0x0A, CHR 0x0B, CHR 0x0C, CHR 0x0D,
                CHR 0x1C, CHR 0x1D, CHR 0x1E, CHR 0x1F, CHR 0x20,
                CHR 0x85, CHR 0xA0])"

definition py_strip :: "string \<Rightarrow> string" where
  "py_strip s = rev (dropWhile is_space (rev (dropWhile is_space s)))"

section \<open>Decrypted lookup\<close>

text \<open>
  \<^verbatim>\<open>get_order_decrypted\<close>, with the list of the requests it sent to the redaction service.
\<close>

definition bundles_note :: json where
  "bundles_note = JStr ''Bundles not found for decryption''"

definition decrypt_order :: "env \<Rightarrow> string \<Rightarrow> request \<Rightarrow> exn + (string \<times> json) list" where
  "decrypt_order w order_id req =
     try_bind (response_json (post w req)) (\<lambda>data.
     try_bind (subscript data ''text'') (\<lambda>decrypted_text.
     try_bind (loads_value (json_loads w) decrypted_text) (\<lambda>decrypted_order.
     try_bind (as_mapping decrypted_order) (\<lambda>fields.
     Inr (dict_with fields [(''order_id'', JStr order_id)])))))"

definition get_order_decrypted ::
  "env \<Rightarrow> store \<Rightarrow> string \<Rightarrow> (exn + (string \<times> json) list) \<times> request list" where
  "get_order_decrypted w s order_id =
     (case map_of (ORDERS_DB s) order_id of
        None \<Rightarrow> (Inr not_found, [])
      | Some order \<Rightarrow>
          if order = [] then (Inr not_found, [])
          else (case get_bundles s (JStr order_id) of
                  Inl e \<Rightarrow> (Inl e, [])
                | Inr bundles \<Rightarrow>
                    if \<not> truthy bundles then
                      (Inr (dict_with order
                              [(''order_id'', JStr order_id), (''note'', bundles_note)]), [])
                    else
                      (let req = Decrypt (JStr (TENANT w)) (JStr (json_dumps w False (JObj order))) bundles
                       in (case decrypt_order w order_id req of
                             Inr decrypted \<Rightarrow> (Inr decrypted, [req])
                           | Inl e \<Rightarrow>
                               (Inr (dict_with order
                                       [(''order_id'', JStr order_id),
                                        (''decrypt_error'',
                                         JStr (''Cryptor service error: '' @ str_exn e))]),
                                [req])))))"

section \<open>The pipeline\<close>

text \<open>
  \<^verbatim>\<open>ServiceState\<close>. A key the workflow has not set yet is \<open>None\<close>. The fields taken from
  the redaction service's response hold whatever JSON value it sent.
\<close>

record ServiceState =
  user_input :: string
  encrypted_input :: "json option"
  bundles :: "json option"
  tenant_id :: "json option"
  action :: "string option"
  tool_result :: "string option"
  agent_response :: "string option"
  final_response :: "json option"

definition initial_state :: "string \<Rightarrow> ServiceState" where
  "initial_state text =
     \<lparr>user_input = text, encrypted_input = None, bundles = None, tenant_id = None,
      action = None, tool_result = None, agent_response = None, final_response = None\<rparr>"

subsection \<open>Step 1: \<^verbatim>\<open>process_input\<close>\<close>

definition process_input :: "env \<Rightarrow> ServiceState \<Rightarrow> exn + ServiceState" where
  "process_input w state =
     except_as ''Cryptor detect-encrypt failure: ''
       (try_bind (response_json (post w (Detect_encrypt (TENANT w) (user_input state)))) (\<lambda>data.
        try_bind (subscript data ''bundles'') (\<lambda>logged.
        try_bind (py_len logged) (\<lambda>n.
        try_bind (subscript data ''text_with_placeholders'') (\<lambda>text.
        try_bind (subscript data ''bundles'') (\<lambda>bs.
        try_bind (subscript data ''tenant_id'') (\<lambda>tenant.
        Inr (state\<lparr>encrypted_input := Some text, bundles := Some bs,
                   tenant_id := Some tenant\<rparr>))))))))"

subsection \<open>Step 2: \<^verbatim>\<open>determine_action\<close>\<close>

text \<open>The span from the first \<^verbatim>\<open>{\<close> to the last \<^verbatim>\<open>}\<close> of the stripped model output.\<close>

definition json_span :: "string \<Rightarrow> string" where
  "json_span text =
     (let response_text = py_strip text;
          start = py_find response_text CHR ''{'';
          end = py_rfind response_text CHR ''}'' + 1
      in py_slice response_text start end)"

definition determine_action :: "env \<Rightarrow> ServiceState \<Rightarrow> exn + ServiceState" where
  "determine_action w state =
     try_bind (state_field ''encrypted_input'' (encrypted_input state)) (\<lambda>request.
       except_as ''Language model action failure: ''
         (try_bind (generate_content w (Action_prompt request)) (\<lambda>text.
          try_bind (json_loads w (json_span text)) (\<lambda>action_data.
          try_bind (subscript action_data ''action'') (\<lambda>logged.
          Inr (state\<lparr>action := Some (json_dumps w True action_data)\<rparr>))))))"

subsection \<open>Step 3: \<^verbatim>\<open>execute_action\<close>\<close>

text \<open>
  The loop of the \<^verbatim>\<open>get_all_orders\<close> branch over the orders of the result: each order's
  stored bundles are appended to \<^verbatim>\<open>new_bundles\<close>, unless its \<^verbatim>\<open>order_id\<close> is falsy.
\<close>

fun collect_bundles :: "store \<Rightarrow> json list \<Rightarrow> json list \<Rightarrow> exn + json list" where
  "collect_bundles s new_bundles [] = Inr new_bundles"
| "collect_bundles s new_bundles (order # rest) =
     (case dot_get order ''order_id'' JNull of
        Inl e \<Rightarrow> Inl e
      | Inr order_id \<Rightarrow>
          if truthy order_id then
            (case get_bundles s order_id of
               Inl e \<Rightarrow> Inl e
             | Inr order_bundles \<Rightarrow>
                 (case py_iter order_bundles of
                    Inl e \<Rightarrow> Inl e
                  | Inr items \<Rightarrow> collect_bundles s (new_bundles @ items) rest))
          else collect_bundles s new_bundles rest)"

text \<open>
  The branch on the action type: the result of the business call and the bundles it
  contributes, with the store as the branch leaves it.
\<close>

definition run_action ::
  "env \<Rightarrow> ServiceState \<Rightarrow> store \<Rightarrow> json \<Rightarrow> json \<Rightarrow>
   (exn + (string \<times> json) list \<times> json list) \<times> store" where
  "run_action w state s action_data action_type =
     (if action_type = JStr ''get_order'' then
        (try_bind (dot_get action_data ''order_id'' (JStr [])) (\<lambda>order_id.
         try_bind (get_order s order_id) (\<lambda>result.
         try_bind (get_bundles s order_id) (\<lambda>order_bundles.
         try_bind (py_iter order_bundles) (\<lambda>items.
         Inr (result, items))))), s)
      else if action_type = JStr ''get_all_orders'' then
        (let result = get_all_orders s in
         try_bind (dot_get (JObj result) ''orders'' (JArr [])) (\<lambda>orders.
         try_bind (py_iter orders) (\<lambda>order_list.
         try_bind (collect_bundles s [] order_list) (\<lambda>new_bundles.
         Inr (result, new_bundles)))), s)
      else if action_type = JStr ''create_order'' then
        (case try_bind (dot_get action_data ''customer'' (JStr [])) (\<lambda>customer.
              try_bind (dot_get action_data ''email'' (JStr [])) (\<lambda>email.
              try_bind (dot_get action_data ''phone'' (JStr [])) (\<lambda>phone.
              try_bind (dot_get action_data ''address'' (JStr [])) (\<lambda>address.
              try_bind (dot_get action_data ''items'' (JStr [])) (\<lambda>items.
              try_bind (state_field ''bundles'' (bundles state)) (\<lambda>bs.
              Inr (customer, email, phone, address, items, bs))))))) of
           Inl e \<Rightarrow> (Inl e, s)
         | Inr (customer, email, phone, address, items, bs) \<Rightarrow>
             (case create_order (now w) (db_write w) (bundles_write w)
                     customer email phone address items bs s of
                (Inl e, s') \<Rightarrow> (Inl e, s')
              | (Inr result, s') \<Rightarrow> (Inr (result, []), s')))
      else
        (Inr ([(''error'', JStr (''Unknown action: '' @ py_str (repr w) action_type))], []), s))"

definition execute_action ::
  "env \<Rightarrow> ServiceState \<Rightarrow> store \<Rightarrow> (exn + ServiceState) \<times> store" where
  "execute_action w state s =
     (case try_bind (state_field ''action'' (action state)) (\<lambda>text.
           try_bind (json_loads w text) (\<lambda>action_data.
           try_bind (dot_get action_data ''action'' JNull) (\<lambda>action_type.
           Inr (action_data, action_type)))) of
        Inl e \<Rightarrow> (Inl e, s)
      | Inr (action_data, action_type) \<Rightarrow>
          (case run_action w state s action_data action_type of
             (branch, s') \<Rightarrow>
               (except_as ''Business logic failure: ''
                  (try_bind branch (\<lambda>(result, new_bundles).
                   try_bind (state_field ''bundles'' (bundles state)) (\<lambda>state_bundles.
                   try_bind (plus_list state_bundles new_bundles) (\<lambda>combined_bundles.
                   try_bind (merge_combined combined_bundles) (\<lambda>final_bundles.
                   Inr (state\<lparr>tool_result := Some (json_dumps w False (JObj result)),
                              bundles := Some (JArr final_bundles)\<rparr>)))))),
                s')))"

subsection \<open>Step 4: \<^verbatim>\<open>format_response\<close>\<close>

text \<open>
  The inner handler turns a failure of the decrypt call into a RuntimeError; the outer
  handler, which encloses it, catches that one too and raises its own RuntimeError.
\<close>

definition final_decrypt :: "env \<Rightarrow> ServiceState \<Rightarrow> string \<Rightarrow> request \<Rightarrow> exn + ServiceState" where
  "final_decrypt w state draft req =
     except_as ''Final response decrypt failed: ''
       (try_bind (response_json (post w req)) (\<lambda>data.
        try_bind (subscript data ''text'') (\<lambda>text.
        Inr (state\<lparr>agent_response := Some draft, final_response := Some text\<rparr>))))"

definition format_response :: "env \<Rightarrow> ServiceState \<Rightarrow> exn + ServiceState" where
  "format_response w state =
     try_bind (state_field ''encrypted_input'' (encrypted_input state)) (\<lambda>request.
     try_bind (state_field ''tool_result'' (tool_result state)) (\<lambda>outcome.
       except_as ''Response generation failed: ''
         (try_bind (generate_content w (Reply_prompt request outcome)) (\<lambda>draft.
          try_bind (state_field ''tenant_id'' (tenant_id state)) (\<lambda>tenant.
          try_bind (state_field ''bundles'' (bundles state)) (\<lambda>bs.
          try_bind (py_len bs) (\<lambda>n.
          final_decrypt w state draft (Decrypt tenant (JStr draft) bs))))))))"

subsection \<open>The workflow\<close>

text \<open>
  \<^verbatim>\<open>app.invoke({"user_input": text})\<close>: the four nodes in a row; an exception of a node
  ends the run and reaches the caller.
\<close>

definition run_pipeline :: "env \<Rightarrow> store \<Rightarrow> string \<Rightarrow> (exn + ServiceState) \<times> store" where
  "run_pipeline w s text =
     (case process_input w (initial_state text) of
        Inl e \<Rightarrow> (Inl e, s)
      | Inr state1 \<Rightarrow>
          (case determine_action w state1 of
             Inl e \<Rightarrow> (Inl e, s)
           | Inr state2 \<Rightarrow>
               (case execute_action w state2 s of
                  (Inl e, s') \<Rightarrow> (Inl e, s')
                | (Inr state3, s') \<Rightarrow> (format_response w state3, s'))))"

section \<open>Notions used to state the properties\<close>

subsection \<open>The merge, as the specification words it\<close>

text \<open>
  The identity key of a bundle in the words of the specification: the value of
  \<^verbatim>\<open>placeholder\<close> if that field is present, else the value of \<^verbatim>\<open>id\<close>; a bundle lacking
  both, or a value that is not a record, has none.
\<close>

fun spec_key :: "json \<Rightarrow> json option" where
  "spec_key (JObj kvs) =
     (case map_of kvs ''placeholder'' of Some v \<Rightarrow> Some v | None \<Rightarrow> map_of kvs ''id'')"
| "spec_key _ = None"

text \<open>
  The key under which the merge files a bundle: its identity key, as a dict compares
  keys. A bundle whose identity key is null or empty is not filed (C10). \<open>keyable\<close>
  excludes the bundles whose key is a non-empty list or dict, on which the dict
  assignment raises.
\<close>

definition identity_key :: "json \<Rightarrow> pykey option" where
  "identity_key b =
     (case spec_key b of
        None \<Rightarrow> None
      | Some v \<Rightarrow>
          if \<not> truthy v then None
          else (case hash_key v of Inl e \<Rightarrow> None | Inr k \<Rightarrow> Some k))"

definition keyable :: "json \<Rightarrow> bool" where
  "keyable b =
     (case hash_key (bundle_key b) of Inr k \<Rightarrow> True | Inl e \<Rightarrow> \<not> truthy (bundle_key b))"

text \<open>
  "Later entries overwrite earlier entries sharing a key; the output is the mapping's
  values in insertion order": the keys in the order of their first occurrence, each with
  the last bundle of the concatenation that has this key.
\<close>

primrec first_occurrences :: "'a list \<Rightarrow> 'a list" where
  "first_occurrences [] = []"
| "first_occurrences (x # xs) = x # removeAll x (first_occurrences xs)"

definition last_with :: "pykey \<Rightarrow> json list \<Rightarrow> json" where
  "last_with k bs = last (filter (\<lambda>b. identity_key b = Some k) bs)"

definition merge_spec :: "json list \<Rightarrow> json list" where
  "merge_spec combined =
     map (\<lambda>k. last_with k combined)
       (first_occurrences (List.map_filter identity_key combined))"

text \<open>One round of the loop, and the dict the loop has built after a list of bundles.\<close>

definition merge_step :: "(pykey \<times> json) list \<Rightarrow> json \<Rightarrow> exn + (pykey \<times> json) list" where
  "merge_step d bundle =
     (let key = bundle_key bundle in
      if \<not> truthy key then Inr d
      else (case hash_key key of Inl e \<Rightarrow> Inl e | Inr k \<Rightarrow> Inr (dict_set d k bundle)))"

definition canonical :: "json list \<Rightarrow> (pykey \<times> json) list" where
  "canonical bs =
     map (\<lambda>k. (k, last_with k bs)) (first_occurrences (List.map_filter identity_key bs))"

text \<open>A bundle with neither field, or a value that is not a record at all.\<close>

definition no_identity :: "json \<Rightarrow> bool" where
  "no_identity b =
     (case b of
        JObj kvs \<Rightarrow> map_of kvs ''placeholder'' = None \<and> map_of kvs ''id'' = None
      | _ \<Rightarrow> True)"

subsection \<open>Sample bundles\<close>

definition live_a :: json where
  "live_a = JObj [(''placeholder'', JStr ''[PERSON_1]''), (''ciphertext'', JStr ''c1'')]"

definition live_b :: json where
  "live_b = JObj [(''placeholder'', JStr ''[PERSON_1]''), (''ciphertext'', JStr ''c2'')]"

definition stored_c :: json where
  "stored_c = JObj [(''id'', JStr ''b-7''), (''ciphertext'', JStr ''c3'')]"

definition anonymous_d :: json where
  "anonymous_d = JObj [(''ciphertext'', JStr ''c4'')]"

definition blank_e :: json where
  "blank_e = JObj [(''placeholder'', JStr []), (''id'', JStr ''b-9'')]"

subsection \<open>Sequences of order creations\<close>

text \<open>
  One call of \<^verbatim>\<open>create_order\<close>: its time stamp, whether its two writes fail, and its
  arguments. \<open>create_all\<close> makes the calls one after the other on the store.
\<close>

record create_call =
  c_now :: string
  c_db_write :: "string option"
  c_bundles_write :: "string option"
  c_customer :: json
  c_email :: json
  c_phone :: json
  c_address :: json
  c_items :: json
  c_bundles :: json

definition create_one :: "create_call \<Rightarrow> store \<Rightarrow> (exn + (string \<times> json) list) \<times> store" where
  "create_one c s =
     create_order (c_now c) (c_db_write c) (c_bundles_write c)
       (c_customer c) (c_email c) (c_phone c) (c_address c) (c_items c) (c_bundles c) s"

fun create_all ::
  "create_call list \<Rightarrow> store \<Rightarrow> (exn + (string \<times> json) list) list \<times> store" where
  "create_all [] s = ([], s)"
| "create_all (c # cs) s =
     (case create_one c s of
        (r, s1) \<Rightarrow> (case create_all cs s1 of (rs, s2) \<Rightarrow> (r # rs, s2)))"

text \<open>
  The identifier of the \<open>k\<close>-th order, "ORD-" followed by \<open>k\<close> zero-padded to three
  digits; the record stored for a call; the acknowledgment returned.
\<close>

definition order_id_of :: "nat \<Rightarrow> string" where
  "order_id_of k = ''ORD-'' @ zfill 3 (dec_nat k)"

definition order_record :: "create_call \<Rightarrow> (string \<times> json) list" where
  "order_record c =
     [(''customer'', c_customer c), (''email'', c_email c), (''phone'', c_phone c),
      (''address'', c_address c), (''items'', c_items c),
      (''status'', JStr ''processing''), (''created_at'', JStr (c_now c))]"

definition created_ack :: "nat \<Rightarrow> (string \<times> json) list" where
  "created_ack k = [(''order_id'', JStr (order_id_of k)), (''status'', JStr ''created'')]"

text \<open>\<^verbatim>\<open>action_data.get(k, "")\<close> on the fields of the action object.\<close>

definition action_field :: "(string \<times> json) list \<Rightarrow> string \<Rightarrow> json" where
  "action_field kvs k = (case map_of kvs k of Some v \<Rightarrow> v | None \<Rightarrow> JStr [])"

text \<open>Reading a decimal text back, to tell identifiers apart.\<close>

definition digit_val :: "char \<Rightarrow> nat" where
  "digit_val c = (of_char c :: nat) - 48"

definition nat_of_dec :: "string \<Rightarrow> nat" where
  "nat_of_dec s = foldl (\<lambda>acc c. 10 * acc + digit_val c) 0 s"

definition sample_call :: "string \<Rightarrow> json \<Rightarrow> create_call" where
  "sample_call name bs =
     \<lparr>c_now = ''2025-01-01 10:00'', c_db_write = None, c_bundles_write = None,
      c_customer = JStr name, c_email = JStr ''[EMAIL_1]'', c_phone = JStr ''[PHONE_1]'',
      c_address = JStr ''[LOCATION_1]'', c_items = JStr ''20 roses'', c_bundles = bs\<rparr>"

subsection \<open>Failing calls to the redaction service\<close>

text \<open>
  A call has failed when \<^verbatim>\<open>requests.post\<close> raised (transport error), when the status is
  one \<^verbatim>\<open>raise_for_status\<close> rejects, or when the body cannot be decoded. \<open>failure_text\<close>
  is the text of the exception the caller then sees.
\<close>

fun call_failed :: "http_outcome \<Rightarrow> bool" where
  "call_failed (Transport_error m) = True"
| "call_failed (Http_response status http_error body) =
     ((400 \<le> status \<and> status < 600) \<or> (case body of Inl m \<Rightarrow> True | Inr data \<Rightarrow> False))"

fun failure_text :: "http_outcome \<Rightarrow> string" where
  "failure_text (Transport_error m) = m"
| "failure_text (Http_response status http_error body) =
     (if 400 \<le> status \<and> status < 600 then http_error
      else (case body of Inl m \<Rightarrow> m | Inr data \<Rightarrow> []))"

text \<open>The request \<^verbatim>\<open>get_order_decrypted\<close> sends for an order and its bundle set.\<close>

definition lookup_request :: "env \<Rightarrow> (string \<times> json) list \<Rightarrow> json \<Rightarrow> request" where
  "lookup_request w order bundle_set =
     Decrypt (JStr (TENANT w)) (JStr (json_dumps w False (JObj order))) bundle_set"

subsection \<open>The pipeline up to the final render\<close>

text \<open>
  Stages 1 to 3 of a run, and the decrypt request \<^verbatim>\<open>format_response\<close> sends once the
  reply has been drafted (\<open>None\<close> when it raises before the call).
\<close>

definition before_render :: "env \<Rightarrow> store \<Rightarrow> string \<Rightarrow> (exn + ServiceState) \<times> store" where
  "before_render w s text =
     (case process_input w (initial_state text) of
        Inl e \<Rightarrow> (Inl e, s)
      | Inr state1 \<Rightarrow>
          (case determine_action w state1 of
             Inl e \<Rightarrow> (Inl e, s)
           | Inr state2 \<Rightarrow> execute_action w state2 s))"

definition final_request :: "env \<Rightarrow> ServiceState \<Rightarrow> request option" where
  "final_request w state =
     (case (encrypted_input state, tool_result state) of
        (Some request, Some outcome) \<Rightarrow>
          (case generate_content w (Reply_prompt request outcome) of
             Inl e \<Rightarrow> None
           | Inr draft \<Rightarrow>
               (case (tenant_id state, bundles state) of
                  (Some tenant, Some bs) \<Rightarrow>
                    (case py_len bs of
                       Inl e \<Rightarrow> None
                     | Inr n \<Rightarrow> Some (Decrypt tenant (JStr draft) bs))
                | _ \<Rightarrow> None))
      | _ \<Rightarrow> None)"

text \<open>The three action kinds the executor knows.\<close>

definition recognized :: "json \<Rightarrow> bool" where
  "recognized a =
     (a = JStr ''get_order'' \<or> a = JStr ''get_all_orders'' \<or> a = JStr ''create_order'')"

definition unknown_result :: "env \<Rightarrow> json \<Rightarrow> (string \<times> json) list" where
  "unknown_result w a = [(''error'', JStr (''Unknown action: '' @ py_str (repr w) a))]"

text \<open>
  What \<^verbatim>\<open>execute_action\<close> returns once the business call has given \<open>result\<close> and has
  contributed no bundle: the merge of the state's bundles with the empty collection.
\<close>

definition merged_with_nothing ::
  "env \<Rightarrow> ServiceState \<Rightarrow> json list \<Rightarrow> (string \<times> json) list \<Rightarrow> exn + ServiceState" where
  "merged_with_nothing w state state_bundles result =
     (case merge_bundles state_bundles [] of
        Inl e \<Rightarrow> Inl (RuntimeError (''Business logic failure: '' @ str_exn e))
      | Inr final_bundles \<Rightarrow>
          Inr (state\<lparr>tool_result := Some (json_dumps w False (JObj result)),
                     bundles := Some (JArr final_bundles)\<rparr>))"

text \<open>Every identifier without an order has no bundle set either.\<close>

definition bundles_follow_orders :: "store \<Rightarrow> bool" where
  "bundles_follow_orders s =
     (\<forall>i. map_of (ORDERS_DB s) i = None \<longrightarrow> map_of (BUNDLES_STORAGE s) i = None)"

subsection \<open>A sample world\<close>

text \<open>
  \<^verbatim>\<open>json.dumps\<close> on the objects of the examples (flat, with string values that need no
  escaping), and \<^verbatim>\<open>json.loads\<close> on the texts it gives for the three sample actions.
\<close>

definition join_comma :: "string list \<Rightarrow> string" where
  "join_comma xs = (case xs of [] \<Rightarrow> [] | x # rest \<Rightarrow> x @ concat (map (\<lambda>y. '', '' @ y) rest))"

definition flat_dumps :: "json \<Rightarrow> string" where
  "flat_dumps j =
     (case j of
        JObj kvs \<Rightarrow>
          ''{'' @ join_comma (map (\<lambda>kv. dquoted (fst kv) @ '': '' @
                  (case snd kv of JStr s \<Rightarrow> dquoted s | _ \<Rightarrow> ''null'')) kvs) @ ''}''
      | _ \<Rightarrow> ''null'')"

definition unknown_action :: json where
  "unknown_action = JObj [(''action'', JStr ''delete_order'')]"

definition lookup_action :: json where
  "lookup_action = JObj [(''action'', JStr ''get_order''), (''order_id'', JStr ''ORD-999'')]"

definition sample_loads :: "string \<Rightarrow> exn + json" where
  "sample_loads s =
     (if s = flat_dumps unknown_action then Inr unknown_action
      else if s = flat_dumps lookup_action then Inr lookup_action
      else Inl (OtherError ''Expecting value: line 1 column 1 (char 0)''))"

definition redacted_reply :: json where
  "redacted_reply =
     JObj [(''text_with_placeholders'', JStr ''Show order ORD-999 for [PERSON_1]''),
           (''bundles'', JArr [live_a]), (''tenant_id'', JStr ''ai_private_demo'')]"

definition sample_env :: "string \<Rightarrow> http_outcome \<Rightarrow> env" where
  "sample_env model_text decrypt_outcome =
     \<lparr>TENANT = ''ai_private_demo'',
      generate_content =
        (\<lambda>p. case p of
               Action_prompt request \<Rightarrow> Inr model_text
             | Reply_prompt request outcome \<Rightarrow> Inr ''Dear [PERSON_1], here is the answer.''),
      post =
        (\<lambda>r. case r of
               Detect_encrypt tenant text \<Rightarrow> Http_response 200 [] (Inr redacted_reply)
             | Decrypt tenant text bs \<Rightarrow> decrypt_outcome),
      json_dumps = (\<lambda>ensure_ascii. flat_dumps),
      json_loads = sample_loads,
      repr = (\<lambda>j. []),
      now = ''2025-01-01 10:00'',
      db_write = None,
      bundles_write = None\<rparr>"

definition unavailable :: http_outcome where
  "unavailable = Http_response 503 ''503 Server Error: Service Unavailable'' (Inl [])"

definition revealed :: http_outcome where
  "revealed = Http_response 200 [] (Inr (JObj [(''text'', JStr ''Dear Ann, here is the answer.'')]))"

definition redacted_state :: ServiceState where
  "redacted_state =
     \<lparr>user_input = ''Show order ORD-999 for Ann'',
      encrypted_input = Some (JStr ''Show order ORD-999 for [PERSON_1]''),
      bundles = Some (JArr [live_a]),
      tenant_id = Some (JStr ''ai_private_demo''),
      action = None, tool_result = None, agent_response = None, final_response = None\<rparr>"

definition stale_store :: store where
  "stale_store =
     \<lparr>ORDERS_DB = [], BUNDLES_STORAGE = [(''ORD-999'', JArr [stored_c])], ORDER_COUNTER = 1,
      db_file = None, bundles_file = Some [(''ORD-999'', JArr [stored_c])]\<rparr>"

subsection \<open>Sample stores and states\<close>

definition files_synced :: "store \<Rightarrow> bool" where
  "files_synced s =
     (db_file s = Some (ORDERS_DB s, ORDER_COUNTER s) \<and>
      bundles_file s = Some (BUNDLES_STORAGE s))"

definition order_ann :: "(string \<times> json) list" where
  "order_ann = order_record (sample_call ''[PERSON_1]'' (JArr [live_a]))"

definition bare_store :: store where
  "bare_store =
     \<lparr>ORDERS_DB = [(''ORD-001'', order_ann)], BUNDLES_STORAGE = [], ORDER_COUNTER = 2,
      db_file = Some ([(''ORD-001'', order_ann)], 2), bundles_file = None\<rparr>"

definition shop_store :: store where
  "shop_store =
     \<lparr>ORDERS_DB = [(''ORD-001'', order_ann)],
      BUNDLES_STORAGE = [(''ORD-001'', JArr [live_a])], ORDER_COUNTER = 2,
      db_file = Some ([(''ORD-001'', order_ann)], 2),
      bundles_file = Some [(''ORD-001'', JArr [live_a])]\<rparr>"

definition classified_state :: "json \<Rightarrow> ServiceState" where
  "classified_state a = redacted_state\<lparr>action := Some (flat_dumps a)\<rparr>"

definition executed_state :: "json \<Rightarrow> (string \<times> json) list \<Rightarrow> json list \<Rightarrow> ServiceState" where
  "executed_state a result bs =
     redacted_state\<lparr>action := Some (flat_dumps a),
                    tool_result := Some (flat_dumps (JObj result)),
                    bundles := Some (JArr bs)\<rparr>"

definition sample_calls :: "create_call list" where
  "sample_calls =
     [sample_call ''[PERSON_1]'' (JArr [live_a]),
      sample_call ''[PERSON_2]'' (JArr [live_b, stored_c]),
      sample_call ''[PERSON_3]'' (JArr [])]"

section \<open>Sequencing lemmas\<close>

lemma try_bind_simps [simp]:
  "try_bind (Inl e) f = Inl e"
  "try_bind (Inr x) f = f x"
  by (simp_all add: try_bind_def)

lemma except_as_simps [simp]:
  "except_as p (Inl e) = Inl (RuntimeError (p @ str_exn e))"
  "except_as p (Inr x) = Inr x"
  by (simp_all add: except_as_def)

lemma state_field_simps [simp]:
  "state_field n None = Inl (OtherError (quoted n))"
  "state_field n (Some x) = Inr x"
  by (simp_all add: state_field_def)

section \<open>The bundle merge\<close>

lemma bundle_key_spec_key:
  "bundle_key b = (case spec_key b of None \<Rightarrow> JNull | Some v \<Rightarrow> v)"
  by (cases b) (simp_all split: option.splits)

lemma identity_key_code:
  "identity_key b =
     (let key = bundle_key b in
      if \<not> truthy key then None
      else (case hash_key key of Inl e \<Rightarrow> None | Inr k \<Rightarrow> Some k))"
  by (simp add: identity_key_def bundle_key_spec_key Let_def split: option.splits)

lemma merge_loop_Cons:
  "merge_loop d (b # bs) =
     (case merge_step d b of Inl e \<Rightarrow> Inl e | Inr d' \<Rightarrow> merge_loop d' bs)"
  by (simp add: merge_step_def Let_def split: sum.splits)

lemma merge_loop_append:
  "merge_loop d (xs @ ys) =
     (case merge_loop d xs of Inl e \<Rightarrow> Inl e | Inr d' \<Rightarrow> merge_loop d' ys)"
proof (induction xs arbitrary: d)
  case Nil
  show ?case by simp
next
  case (Cons b xs)
  show ?case unfolding append_Cons merge_loop_Cons
    by (cases "merge_step d b") (simp_all add: Cons.IH)
qed

lemma merge_step_keyable:
  "keyable b \<Longrightarrow>
   merge_step d b = Inr (case identity_key b of None \<Rightarrow> d | Some k \<Rightarrow> dict_set d k b)"
  by (auto simp: keyable_def merge_step_def identity_key_code Let_def split: sum.splits)

lemma set_first_occurrences [simp]: "set (first_occurrences xs) = set xs"
  by (induction xs) auto

lemma distinct_first_occurrences [simp]: "distinct (first_occurrences xs)"
  by (induction xs) (auto simp: distinct_removeAll)

lemma first_occurrences_snoc:
  "first_occurrences (xs @ [x]) =
     (if x \<in> set xs then first_occurrences xs else first_occurrences xs @ [x])"
  by (induction xs) auto

lemma first_occurrences_absorb:
  "set ys \<subseteq> set xs \<Longrightarrow> first_occurrences (xs @ ys) = first_occurrences xs"
proof (induction ys rule: rev_induct)
  case Nil
  show ?case by simp
next
  case (snoc y ys)
  then show ?case
    using first_occurrences_snoc[of "xs @ ys" y]
    by (simp del: append_assoc add: append_assoc[symmetric])
qed

lemma dict_set_map:
  "distinct ks \<Longrightarrow>
   dict_set (map (\<lambda>k'. (k', f k')) ks) k v =
   map (\<lambda>k'. (k', if k' = k then v else f k')) (if k \<in> set ks then ks else ks @ [k])"
  by (induction ks) auto

lemma set_dict_set: "set (dict_set d k v) \<subseteq> insert (k, v) (set d)"
  by (induction d) (auto split: if_splits)

lemma map_of_dict_set: "map_of (dict_set d k v) = (map_of d)(k \<mapsto> v)"
  by (induction d) auto

lemma map_filter_snoc:
  "List.map_filter f (xs @ [x]) =
     List.map_filter f xs @ (case f x of None \<Rightarrow> [] | Some y \<Rightarrow> [y])"
  by (simp add: List.map_filter_def split: option.splits)

lemma map_filter_append:
  "List.map_filter f (xs @ ys) = List.map_filter f xs @ List.map_filter f ys"
  by (simp add: List.map_filter_def)

lemma set_map_filter: "set (List.map_filter f xs) = {y. \<exists>x\<in>set xs. f x = Some y}"
  by (force simp: List.map_filter_def image_iff)

lemma canonical_snoc:
  "canonical (bs @ [b]) =
     (case identity_key b of None \<Rightarrow> canonical bs | Some k \<Rightarrow> dict_set (canonical bs) k b)"
proof (cases "identity_key b")
  case None
  then show ?thesis by (simp add: canonical_def map_filter_snoc last_with_def)
next
  case (Some k)
  have "last_with k' (bs @ [b]) = (if k' = k then b else last_with k' bs)" for k'
    using Some by (simp add: last_with_def)
  then show ?thesis using Some
    by (simp add: canonical_def map_filter_snoc first_occurrences_snoc dict_set_map)
qed

lemma merge_loop_canonical:
  "\<forall>b\<in>set bs. keyable b \<Longrightarrow> merge_loop [] bs = Inr (canonical bs)"
proof (induction bs rule: rev_induct)
  case Nil
  show ?case by (simp add: canonical_def List.map_filter_def)
next
  case (snoc b bs)
  then show ?case
    by (simp add: merge_loop_append merge_loop_Cons merge_step_keyable canonical_snoc
          del: merge_loop.simps(2))
qed

lemma merge_bundles_spec:
  "\<forall>b\<in>set (st @ new). keyable b \<Longrightarrow> merge_bundles st new = Inr (merge_spec (st @ new))"
  using merge_loop_canonical[of "st @ new"]
  by (simp add: merge_bundles_def merge_combined_def canonical_def merge_spec_def comp_def)

lemma identity_key_SomeD:
  "identity_key b = Some k \<Longrightarrow> truthy (bundle_key b) \<and> hash_key (bundle_key b) = Inr k"
  by (auto simp: identity_key_code Let_def split: if_splits sum.splits)

lemma merge_pair:
  assumes "identity_key b1 = Some k" "identity_key b2 = Some k"
  shows "merge_loop [] [b1, b2] = Inr [(k, b2)]"
  using identity_key_SomeD[OF assms(1)] identity_key_SomeD[OF assms(2)] by simp

lemma merge_loop_Inr_keyable:
  "merge_loop d xs = Inr d' \<Longrightarrow> b \<in> set xs \<Longrightarrow> keyable b"
proof (induction xs arbitrary: d)
  case Nil
  then show ?case by simp
next
  case (Cons x xs)
  then show ?case
    by (auto simp: keyable_def Let_def split: if_splits sum.splits)
qed

lemma last_with_twice:
  assumes "k \<in> set (List.map_filter identity_key bs)"
  shows "last_with k (bs @ bs) = last_with k bs"
proof -
  from assms have "filter (\<lambda>b. identity_key b = Some k) bs \<noteq> []"
    by (auto simp: set_map_filter filter_empty_conv)
  then show ?thesis by (simp add: last_with_def)
qed

lemma merge_spec_twice: "merge_spec (bs @ bs) = merge_spec bs"
  by (simp add: merge_spec_def map_filter_append first_occurrences_absorb last_with_twice
        cong: map_cong)

lemma merge_loop_values_truthy:
  "merge_loop d xs = Inr d' \<Longrightarrow> \<forall>v\<in>snd ` set d. truthy (bundle_key v) \<Longrightarrow>
   v \<in> snd ` set d' \<Longrightarrow> truthy (bundle_key v)"
proof (induction xs arbitrary: d)
  case Nil
  then show ?case by auto
next
  case (Cons x xs)
  show ?case
  proof (cases "truthy (bundle_key x)")
    case False
    with Cons.prems have "merge_loop d xs = Inr d'" by simp
    from Cons.IH[OF this Cons.prems(2) Cons.prems(3)] show ?thesis .
  next
    case True
    with Cons.prems(1) obtain k where k: "hash_key (bundle_key x) = Inr k"
      and m: "merge_loop (dict_set d k x) xs = Inr d'"
      by (auto split: sum.splits)
    have "\<forall>v\<in>snd ` set (dict_set d k x). truthy (bundle_key v)"
      using set_dict_set[of d k x] Cons.prems(2) True by fastforce
    from Cons.IH[OF m this Cons.prems(3)] show ?thesis .
  qed
qed

lemma merge_bundles_output_truthy:
  "merge_bundles st new = Inr out \<Longrightarrow> b \<in> set out \<Longrightarrow> truthy (bundle_key b)"
  using merge_loop_values_truthy[of "[]" "st @ new" _ b]
  by (auto simp: merge_bundles_def merge_combined_def split: sum.splits)

lemma no_identity_key: "no_identity b \<Longrightarrow> bundle_key b = JNull"
  by (cases b) (auto simp: no_identity_def)

lemmas sample_bundle_defs = live_a_def live_b_def stored_c_def anonymous_d_def blank_e_def

text \<open>
  C1. The merge concatenates the two collections in encounter order, files each bundle
  under its identity key with later entries overwriting earlier ones, and returns the
  surviving bundles in the order in which their keys were first inserted: it computes
  \<open>merge_spec\<close> of the concatenation, for all collections on which no dict assignment
  raises. In particular, for two bundles sharing the key \<open>k\<close>, merging \<open>[b1, b2]\<close> leaves
  \<open>b2\<close> and merging \<open>[b2, b1]\<close> leaves \<open>b1\<close>, also when the two come from the two
  collections.
\<close>

theorem merge_bundles_last_write_wins:
  assumes "\<forall>b\<in>set (state_bundles @ new_bundles). keyable b"
    and "identity_key b1 = Some k" and "identity_key b2 = Some k"
  shows "merge_bundles state_bundles new_bundles = Inr (merge_spec (state_bundles @ new_bundles))
       \<and> merge_bundles [b1, b2] [] = Inr [b2] \<and> merge_bundles [b2, b1] [] = Inr [b1]
       \<and> merge_bundles [b1] [b2] = Inr [b2] \<and> merge_bundles [b2] [b1] = Inr [b1]"
proof -
  have "merge_bundles state_bundles new_bundles = Inr (merge_spec (state_bundles @ new_bundles))"
    by (rule merge_bundles_spec[OF assms(1)])
  moreover have "merge_loop [] [b1, b2] = Inr [(k, b2)]"
    by (rule merge_pair[OF assms(2) assms(3)])
  moreover have "merge_loop [] [b2, b1] = Inr [(k, b1)]"
    by (rule merge_pair[OF assms(3) assms(2)])
  ultimately show ?thesis
    by (simp add: merge_bundles_def merge_combined_def)
qed

theorem merge_bundles_last_write_wins_witness:
  "merge_bundles [live_a, stored_c, anonymous_d] [live_b] = Inr [live_b, stored_c]
   \<and> merge_spec ([live_a, stored_c, anonymous_d] @ [live_b]) = [live_b, stored_c]
   \<and> merge_bundles [live_a, live_b] [] = Inr [live_b]
   \<and> merge_bundles [live_b, live_a] [] = Inr [live_a]
   \<and> live_a \<noteq> live_b"
proof -
  have h1: "\<forall>b\<in>set ([live_a, stored_c, anonymous_d] @ [live_b]). keyable b"
    by (simp add: keyable_def sample_bundle_defs)
  have h2: "identity_key live_a = Some (KStr ''[PERSON_1]'')"
    by (simp add: identity_key_code sample_bundle_defs)
  have h3: "identity_key live_b = Some (KStr ''[PERSON_1]'')"
    by (simp add: identity_key_code sample_bundle_defs)
  have s: "merge_spec ([live_a, stored_c, anonymous_d] @ [live_b]) = [live_b, stored_c]"
    by (simp add: merge_spec_def last_with_def identity_key_code List.map_filter_def
          sample_bundle_defs)
  have d: "live_a \<noteq> live_b"
    by (simp add: sample_bundle_defs)
  show ?thesis
    using merge_bundles_last_write_wins[OF h1 h2 h3] s d by simp
qed

text \<open>
  C5. Merging a collection with itself gives what merging it with the empty collection
  gives: the same bundles in the same order, or the same exception.
\<close>

theorem merge_bundles_idempotent: "merge_bundles B B = merge_bundles B []"
proof (cases "merge_loop [] B")
  case (Inl e)
  then show ?thesis by (simp add: merge_bundles_def merge_combined_def merge_loop_append)
next
  case (Inr d)
  then have k: "\<forall>b\<in>set B. keyable b" using merge_loop_Inr_keyable by blast
  then have k2: "\<forall>b\<in>set (B @ B). keyable b" and k1: "\<forall>b\<in>set (B @ []). keyable b"
    by auto
  show ?thesis
    unfolding merge_bundles_spec[OF k2] merge_bundles_spec[OF k1]
    by (simp add: merge_spec_twice)
qed

theorem merge_bundles_idempotent_witness:
  "merge_bundles [live_a, stored_c, live_b] [live_a, stored_c, live_b] = Inr [live_b, stored_c]
   \<and> merge_bundles [live_a, stored_c, live_b] [] = Inr [live_b, stored_c]"
proof -
  have "merge_bundles [live_a, stored_c, live_b] [] = Inr [live_b, stored_c]"
    by (simp add: merge_bundles_def merge_combined_def sample_bundle_defs)
  then show ?thesis
    using merge_bundles_idempotent[of "[live_a, stored_c, live_b]"] by simp
qed

text \<open>
  C6. A bundle that has neither a \<^verbatim>\<open>placeholder\<close> nor an \<^verbatim>\<open>id\<close> field, or that is not a
  record, is in no output of the merge, wherever it stands in the two collections.
\<close>

theorem unresolvable_bundles_dropped:
  assumes "no_identity b" and "merge_bundles state_bundles new_bundles = Inr out"
  shows "b \<notin> set out"
  using merge_bundles_output_truthy[OF assms(2), of b] no_identity_key[OF assms(1)] by auto

theorem unresolvable_bundles_dropped_witness:
  "no_identity anonymous_d \<and> no_identity (JStr ''text'')
   \<and> merge_bundles [anonymous_d, live_a] [JStr ''text'', stored_c, anonymous_d] = Inr [live_a, stored_c]
   \<and> anonymous_d \<notin> set [live_a, stored_c]"
proof -
  have h1: "no_identity anonymous_d"
    by (simp add: no_identity_def sample_bundle_defs)
  have h2: "merge_bundles [anonymous_d, live_a] [JStr ''text'', stored_c, anonymous_d] = Inr [live_a, stored_c]"
    by (simp add: merge_bundles_def merge_combined_def sample_bundle_defs)
  have h3: "no_identity (JStr ''text'')"
    by (simp add: no_identity_def)
  show ?thesis
    using unresolvable_bundles_dropped[OF h1 h2] h1 h2 h3 by simp
qed

text \<open>
  C10. When the \<^verbatim>\<open>placeholder\<close> field is present and holds a falsy value (null, the empty
  string), the key of the bundle is that value, never the \<^verbatim>\<open>id\<close>, and the bundle is in
  no output of the merge, whatever its \<^verbatim>\<open>id\<close> field holds.
\<close>

theorem falsy_placeholder_dropped:
  assumes "map_of kvs ''placeholder'' = Some v" and "\<not> truthy v"
    and "merge_bundles state_bundles new_bundles = Inr out"
  shows "bundle_key (JObj kvs) = v \<and> JObj kvs \<notin> set out"
  using merge_bundles_output_truthy[OF assms(3), of "JObj kvs"] assms(1,2) by auto

theorem falsy_placeholder_dropped_witness:
  "map_of [(''placeholder'', JStr []), (''id'', JStr ''b-9'')] ''placeholder'' = Some (JStr [])
   \<and> map_of [(''placeholder'', JStr []), (''id'', JStr ''b-9'')] ''id'' = Some (JStr ''b-9'')
   \<and> \<not> truthy (JStr [])
   \<and> merge_bundles [blank_e, stored_c] [blank_e] = Inr [stored_c]
   \<and> bundle_key blank_e = JStr []
   \<and> blank_e \<notin> set [stored_c]"
proof -
  have h1: "map_of [(''placeholder'', JStr []), (''id'', JStr ''b-9'')] ''placeholder'' = Some (JStr [])"
    by simp
  have h2: "\<not> truthy (JStr [])"
    by simp
  have h3: "merge_bundles [blank_e, stored_c] [blank_e] = Inr [stored_c]"
    by (simp add: merge_bundles_def merge_combined_def sample_bundle_defs)
  show ?thesis
    using falsy_placeholder_dropped[OF h1 h2 h3] h1 h2 h3 by (simp add: sample_bundle_defs)
qed

section \<open>Calls to the outside\<close>

lemma response_json_failed:
  "call_failed outcome \<Longrightarrow> response_json outcome = Inl (OtherError (failure_text outcome))"
  by (cases outcome) (auto split: sum.splits)

lemma str_dict_get_JStr [simp]: "str_dict_get d (JStr k) = Inr (map_of d k)"
  by (simp add: str_dict_get_def)

lemma map_of_dict_with_other:
  "k \<notin> fst ` set items \<Longrightarrow> map_of (dict_with d items) k = map_of d k"
proof (induction items arbitrary: d)
  case Nil
  show ?case by (simp add: dict_with_def)
next
  case (Cons kv items)
  have "dict_with d (kv # items) = dict_with (dict_set d (fst kv) (snd kv)) items"
    by (simp add: dict_with_def)
  with Cons show ?case by (simp add: map_of_dict_set)
qed

lemma get_bundles_list:
  "map_of (BUNDLES_STORAGE s) order_id = Some (JArr bs) \<Longrightarrow>
   get_bundles s (JStr order_id) = Inr (JArr bs)"
  by (simp add: get_bundles_def)

lemma get_bundles_absent:
  "map_of (BUNDLES_STORAGE s) order_id = None \<Longrightarrow>
   get_bundles s (JStr order_id) = Inr (JArr [])"
  by (simp add: get_bundles_def)

lemmas sample_world_defs =
  sample_env_def sample_loads_def flat_dumps_def join_comma_def dquoted_def quoted_def
  unknown_action_def lookup_action_def redacted_reply_def redacted_state_def
  unavailable_def revealed_def stale_store_def classified_state_def executed_state_def
  not_found_def fresh_store_def initial_state_def

section \<open>The final render\<close>

lemma run_pipeline_before_render:
  "run_pipeline w s text =
     (case before_render w s text of
        (Inl e, s') \<Rightarrow> (Inl e, s')
      | (Inr state3, s') \<Rightarrow> (format_response w state3, s'))"
  by (simp add: run_pipeline_def before_render_def split: sum.splits prod.splits)

lemma final_decrypt_failed:
  "call_failed (post w req) \<Longrightarrow>
   final_decrypt w state draft req =
     Inl (RuntimeError (''Final response decrypt failed: '' @ failure_text (post w req)))"
  by (simp add: final_decrypt_def response_json_failed)

lemma format_response_failed:
  assumes "final_request w state = Some req" and "call_failed (post w req)"
  shows "format_response w state =
     Inl (RuntimeError (''Response generation failed: '' @
            (''Final response decrypt failed: '' @ failure_text (post w req))))"
proof -
  from assms(1) obtain request outcome draft tenant bs n where
    f: "encrypted_input state = Some request" "tool_result state = Some outcome"
       "generate_content w (Reply_prompt request outcome) = Inr draft"
       "tenant_id state = Some tenant" "bundles state = Some bs" "py_len bs = Inr n"
       "req = Decrypt tenant (JStr draft) bs"
    by (auto simp: final_request_def split: option.splits sum.splits)
  show ?thesis
    using assms(2) unfolding f(7)
    by (simp add: format_response_def f final_decrypt_failed)
qed

text \<open>
  C2. When a run reaches the final decrypt call and that call fails (it raises, returns
  an error status, or returns a body that cannot be decoded), the run as a whole ends
  with a RuntimeError, the recoverable pipeline error, and returns no state, hence no
  reply, to the caller.
\<close>

theorem final_decrypt_failure_fatal:
  assumes "before_render w s text = (Inr state3, s')"
    and "final_request w state3 = Some req"
    and "call_failed (post w req)"
  shows "run_pipeline w s text =
           (Inl (RuntimeError (''Response generation failed: '' @
                   (''Final response decrypt failed: '' @ failure_text (post w req)))), s')
       \<and> format_response w state3 =
           Inl (RuntimeError (''Response generation failed: '' @
                   (''Final response decrypt failed: '' @ failure_text (post w req))))"
  using format_response_failed[OF assms(2,3)] assms(1)
  by (simp add: run_pipeline_before_render)

theorem final_decrypt_failure_fatal_witness:
  "before_render (sample_env (flat_dumps lookup_action) unavailable) fresh_store
       ''Show order ORD-999 for Ann''
     = (Inr (executed_state lookup_action not_found [live_a]), fresh_store)
   \<and> call_failed unavailable
   \<and> run_pipeline (sample_env (flat_dumps lookup_action) unavailable) fresh_store
       ''Show order ORD-999 for Ann''
     = (Inl (RuntimeError
         ''Response generation failed: Final response decrypt failed: 503 Server Error: Service Unavailable''),
        fresh_store)"
proof -
  let ?w = "sample_env (flat_dumps lookup_action) unavailable"
  let ?req = "Decrypt (JStr ''ai_private_demo'') (JStr ''Dear [PERSON_1], here is the answer.'')
                (JArr [live_a])"
  have span: "json_span (flat_dumps lookup_action) = flat_dumps lookup_action"
    by code_simp
  have h1: "before_render ?w fresh_store ''Show order ORD-999 for Ann''
     = (Inr (executed_state lookup_action not_found [live_a]), fresh_store)"
    unfolding before_render_def process_input_def determine_action_def execute_action_def
      run_action_def
    by (simp add: sample_env_def redacted_reply_def initial_state_def span)
       (simp add: sample_world_defs sample_bundle_defs get_order_def get_bundles_def
          merge_combined_def str_dict_get_def dict_with_def)
  have h2: "final_request ?w (executed_state lookup_action not_found [live_a]) = Some ?req"
    by (simp add: final_request_def sample_env_def executed_state_def redacted_state_def)
  have h3: "call_failed (post ?w ?req)"
    by (simp add: sample_env_def unavailable_def)
  have u: "call_failed unavailable" by (simp add: unavailable_def)
  have t: "failure_text (post ?w ?req) = ''503 Server Error: Service Unavailable''"
    by (simp add: sample_env_def unavailable_def)
  show ?thesis
    using final_decrypt_failure_fatal[OF h1 h2 h3] h1 u unfolding t by simp
qed

section \<open>Classification and unknown actions\<close>

lemma determine_action_cases:
  assumes "encrypted_input state = Some request"
    and "generate_content w (Action_prompt request) = Inr text"
  shows "determine_action w state =
     (case json_loads w (json_span text) of
        Inl e \<Rightarrow> Inl (RuntimeError (''Language model action failure: '' @ str_exn e))
      | Inr data \<Rightarrow>
          (case subscript data ''action'' of
             Inl e \<Rightarrow> Inl (RuntimeError (''Language model action failure: '' @ str_exn e))
           | Inr a \<Rightarrow> Inr (state\<lparr>action := Some (json_dumps w True data)\<rparr>)))"
  using assms by (simp add: determine_action_def split: sum.splits)

lemma execute_action_unknown:
  assumes "action state = Some atext" and "json_loads w atext = Inr (JObj kvs)"
    and "map_of kvs ''action'' = Some a" and "\<not> recognized a"
    and "bundles state = Some (JArr sb)"
  shows "execute_action w state s = (merged_with_nothing w state sb (unknown_result w a), s)"
  using assms
  by (simp add: execute_action_def run_action_def recognized_def merged_with_nothing_def
        unknown_result_def merge_bundles_def split: sum.splits)

lemma sample_spans:
  "json_span (flat_dumps unknown_action) = flat_dumps unknown_action"
  "json_span (''Sure! '' @ flat_dumps unknown_action @ '' Anything else?'') = flat_dumps unknown_action"
  "json_span (flat_dumps lookup_action) = flat_dumps lookup_action"
  "json_span ''I cannot help with that.'' = []"
  "json_span [CHR ''}'', CHR 0xA0, CHR 0x85] = [CHR ''}'']"
  by code_simp+

lemma sample_loads_simps:
  "sample_loads (flat_dumps unknown_action) = Inr unknown_action"
  "sample_loads (flat_dumps lookup_action) = Inr lookup_action"
  "sample_loads [] = Inl (OtherError ''Expecting value: line 1 column 1 (char 0)'')"
  by (simp_all add: sample_loads_def flat_dumps_def join_comma_def dquoted_def
        unknown_action_def lookup_action_def)

text \<open>
  C3, the claim as written fails: the model output \<^verbatim>\<open>{"action": "delete_order"}\<close> parses,
  its action is none of the three kinds, and \<^verbatim>\<open>determine_action\<close> returns the state
  with that action; the whole run then returns a reply.
\<close>

theorem unknown_action_passes_classification:
  "\<not> recognized (JStr ''delete_order'')
   \<and> sample_loads (json_span (flat_dumps unknown_action)) = Inr unknown_action
   \<and> subscript unknown_action ''action'' = Inr (JStr ''delete_order'')
   \<and> determine_action (sample_env (flat_dumps unknown_action) revealed) redacted_state
       = Inr (classified_state unknown_action)
   \<and> (case fst (run_pipeline (sample_env (flat_dumps unknown_action) revealed) fresh_store
                   ''Show order ORD-999 for Ann'') of
         Inl e \<Rightarrow> False
       | Inr final \<Rightarrow> final_response final = Some (JStr ''Dear Ann, here is the answer.''))"
proof -
  let ?w = "sample_env (flat_dumps unknown_action) revealed"
  have a: "\<not> recognized (JStr ''delete_order'')"
    by (simp add: recognized_def)
  have b: "sample_loads (json_span (flat_dumps unknown_action)) = Inr unknown_action"
    unfolding sample_spans by (simp add: sample_loads_def)
  have c: "subscript unknown_action ''action'' = Inr (JStr ''delete_order'')"
    by (simp add: unknown_action_def)
  have d: "determine_action ?w redacted_state = Inr (classified_state unknown_action)"
    unfolding determine_action_def
    by (simp add: sample_env_def redacted_state_def b c classified_state_def)
  have p: "process_input ?w (initial_state ''Show order ORD-999 for Ann'') = Inr redacted_state"
    unfolding process_input_def
    by (simp add: sample_env_def redacted_reply_def initial_state_def redacted_state_def)
  have l: "json_loads ?w (flat_dumps unknown_action) = Inr (JObj [(''action'', JStr ''delete_order'')])"
    by (simp add: sample_env_def sample_loads_def unknown_action_def)
  have m: "merged_with_nothing ?w (classified_state unknown_action) [live_a]
             (unknown_result ?w (JStr ''delete_order''))
      = Inr (executed_state unknown_action (unknown_result ?w (JStr ''delete_order'')) [live_a])"
    by (simp add: merged_with_nothing_def merge_bundles_def merge_combined_def
          sample_bundle_defs classified_state_def executed_state_def sample_env_def)
  have e: "execute_action ?w (classified_state unknown_action) fresh_store
      = (Inr (executed_state unknown_action (unknown_result ?w (JStr ''delete_order'')) [live_a]),
         fresh_store)"
    using execute_action_unknown[of "classified_state unknown_action" "flat_dumps unknown_action"
        ?w "[(''action'', JStr ''delete_order'')]" "JStr ''delete_order''" "[live_a]" fresh_store]
      l a m
    by (simp add: classified_state_def redacted_state_def)
  have f: "format_response ?w
             (executed_state unknown_action (unknown_result ?w (JStr ''delete_order'')) [live_a])
      = Inr ((executed_state unknown_action (unknown_result ?w (JStr ''delete_order'')) [live_a])
               \<lparr>agent_response := Some ''Dear [PERSON_1], here is the answer.'',
                 final_response := Some (JStr ''Dear Ann, here is the answer.'')\<rparr>)"
    unfolding format_response_def final_decrypt_def
    by (simp add: executed_state_def redacted_state_def sample_env_def revealed_def)
  have r: "(case fst (run_pipeline ?w fresh_store ''Show order ORD-999 for Ann'') of
         Inl e \<Rightarrow> False
       | Inr final \<Rightarrow> final_response final = Some (JStr ''Dear Ann, here is the answer.''))"
    by (simp add: run_pipeline_def p d e f)
  from a b c d r show ?thesis by blast
qed

lemma execute_action_unknown_returns:
  assumes "action state = Some atext" and "json_loads w atext = Inr (JObj kvs)"
    and "map_of kvs ''action'' = Some a" and "\<not> recognized a"
    and "bundles state = Some (JArr sb)" and "\<forall>b\<in>set sb. keyable b"
  shows "execute_action w state s =
           (Inr (state\<lparr>tool_result := Some (json_dumps w False (JObj (unknown_result w a))),
                       bundles := Some (JArr (merge_spec sb))\<rparr>), s)"
proof -
  from assms(6) have "\<forall>b\<in>set (sb @ []). keyable b" by simp
  then have "merge_bundles sb [] = Inr (merge_spec (sb @ []))"
    by (rule merge_bundles_spec)
  then show ?thesis
    using execute_action_unknown[OF assms(1-5), of s]
    by (simp add: merged_with_nothing_def)
qed

text \<open>
  C3, as amended. When the model has answered: an output whose span from the first
  \<^verbatim>\<open>{\<close> to the last \<^verbatim>\<open>}\<close> does not parse, or parses to a value without an \<^verbatim>\<open>action\<close>
  entry, makes the classification stage raise the pipeline error; a parsed object with
  any \<^verbatim>\<open>action\<close> value, recognized or not, passes the stage. The execution stage
  answers an action outside the three kinds with the result
  \<^verbatim>\<open>{"error": "Unknown action: ..."}\<close>: it returns normally, runs no business action (the
  store is unchanged) and contributes no bundles, the bundles of the state being a list
  on which the merge does not raise.
\<close>

theorem classification_failures:
  "(encrypted_input state = Some request \<and>
    generate_content w (Action_prompt request) = Inr reply \<longrightarrow>
      (\<forall>e. json_loads w (json_span reply) = Inl e \<longrightarrow>
         determine_action w state =
           Inl (RuntimeError (''Language model action failure: '' @ str_exn e)))
    \<and> (\<forall>data e. json_loads w (json_span reply) = Inr data \<and> subscript data ''action'' = Inl e \<longrightarrow>
         determine_action w state =
           Inl (RuntimeError (''Language model action failure: '' @ str_exn e)))
    \<and> (\<forall>kvs a. json_loads w (json_span reply) = Inr (JObj kvs) \<and> map_of kvs ''action'' = Some a \<longrightarrow>
         determine_action w state = Inr (state\<lparr>action := Some (json_dumps w True (JObj kvs))\<rparr>)))
   \<and> (action state2 = Some atext \<and> json_loads w atext = Inr (JObj kvs2) \<and>
      map_of kvs2 ''action'' = Some a2 \<and> \<not> recognized a2 \<and>
      bundles state2 = Some (JArr sb) \<and> (\<forall>b\<in>set sb. keyable b) \<longrightarrow>
        execute_action w state2 s =
          (Inr (state2\<lparr>tool_result := Some (json_dumps w False (JObj (unknown_result w a2))),
                        bundles := Some (JArr (merge_spec sb))\<rparr>), s))"
proof (intro conjI impI)
  assume "encrypted_input state = Some request \<and>
    generate_content w (Action_prompt request) = Inr reply"
  then have d: "determine_action w state =
     (case json_loads w (json_span reply) of
        Inl e \<Rightarrow> Inl (RuntimeError (''Language model action failure: '' @ str_exn e))
      | Inr data \<Rightarrow>
          (case subscript data ''action'' of
             Inl e \<Rightarrow> Inl (RuntimeError (''Language model action failure: '' @ str_exn e))
           | Inr a \<Rightarrow> Inr (state\<lparr>action := Some (json_dumps w True data)\<rparr>)))"
    using determine_action_cases by blast
  show "\<forall>e. json_loads w (json_span reply) = Inl e \<longrightarrow>
         determine_action w state =
           Inl (RuntimeError (''Language model action failure: '' @ str_exn e))"
    by (simp add: d)
  show "\<forall>data e. json_loads w (json_span reply) = Inr data \<and> subscript data ''action'' = Inl e \<longrightarrow>
         determine_action w state =
           Inl (RuntimeError (''Language model action failure: '' @ str_exn e))"
    by (simp add: d)
  show "\<forall>kvs a. json_loads w (json_span reply) = Inr (JObj kvs) \<and> map_of kvs ''action'' = Some a \<longrightarrow>
         determine_action w state = Inr (state\<lparr>action := Some (json_dumps w True (JObj kvs))\<rparr>)"
    by (simp add: d)
next
  assume "action state2 = Some atext \<and> json_loads w atext = Inr (JObj kvs2) \<and>
      map_of kvs2 ''action'' = Some a2 \<and> \<not> recognized a2 \<and>
      bundles state2 = Some (JArr sb) \<and> (\<forall>b\<in>set sb. keyable b)"
  then show "execute_action w state2 s =
          (Inr (state2\<lparr>tool_result := Some (json_dumps w False (JObj (unknown_result w a2))),
                        bundles := Some (JArr (merge_spec sb))\<rparr>), s)"
    using execute_action_unknown_returns by blast
qed

theorem classification_failures_witness:
  "determine_action (sample_env ''I cannot help with that.'' revealed) redacted_state
     = Inl (RuntimeError
         ''Language model action failure: Expecting value: line 1 column 1 (char 0)'')
   \<and> determine_action (sample_env (''Sure! '' @ flat_dumps unknown_action @ '' Anything else?'') revealed)
       redacted_state
     = Inr (classified_state unknown_action)
   \<and> execute_action (sample_env ''I cannot help with that.'' revealed)
       (classified_state unknown_action) shop_store
     = (Inr (executed_state unknown_action
               [(''error'', JStr ''Unknown action: delete_order'')] [live_a]), shop_store)
   \<and> keyable live_a \<and> \<not> recognized (JStr ''delete_order'')"
proof -
  let ?w1 = "sample_env ''I cannot help with that.'' revealed"
  let ?w2 = "sample_env (''Sure! '' @ flat_dumps unknown_action @ '' Anything else?'') revealed"
  let ?req = "JStr ''Show order ORD-999 for [PERSON_1]''"
  have h1: "encrypted_input redacted_state = Some ?req"
    by (simp add: redacted_state_def)
  have h2: "generate_content ?w1 (Action_prompt ?req) = Inr ''I cannot help with that.''"
    by (simp add: sample_env_def)
  have h2': "generate_content ?w2 (Action_prompt ?req)
      = Inr (''Sure! '' @ flat_dumps unknown_action @ '' Anything else?'')"
    by (simp add: sample_env_def)
  have h3: "action (classified_state unknown_action) = Some (flat_dumps unknown_action)"
    by (simp add: classified_state_def)
  have h4: "json_loads ?w1 (flat_dumps unknown_action) = Inr (JObj [(''action'', JStr ''delete_order'')])"
    by (simp add: sample_env_def sample_loads_simps) (simp add: unknown_action_def)
  have h5: "map_of [(''action'', JStr ''delete_order'')] ''action'' = Some (JStr ''delete_order'')"
    by simp
  have h6: "\<not> recognized (JStr ''delete_order'')"
    by (simp add: recognized_def)
  have h7: "bundles (classified_state unknown_action) = Some (JArr [live_a])"
    by (simp add: classified_state_def redacted_state_def)
  have h8: "\<forall>b\<in>set [live_a]. keyable b"
    by (simp add: keyable_def sample_bundle_defs)
  have f1: "json_loads ?w1 (json_span ''I cannot help with that.'')
      = Inl (OtherError ''Expecting value: line 1 column 1 (char 0)'')"
    unfolding sample_spans
    by (simp add: sample_env_def sample_loads_simps)
  have f2: "json_loads ?w2 (json_span (''Sure! '' @ flat_dumps unknown_action @ '' Anything else?''))
      = Inr (JObj [(''action'', JStr ''delete_order'')])"
    unfolding sample_spans
    by (simp add: sample_env_def sample_loads_simps) (simp add: unknown_action_def)
  have ms: "merge_spec [live_a] = [live_a]"
    by (simp add: merge_spec_def last_with_def identity_key_code List.map_filter_def
          sample_bundle_defs)
  note t1 = classification_failures[where state = redacted_state and request = "?req"
      and w = "?w1" and reply = "''I cannot help with that.''"
      and ?state2.0 = "classified_state unknown_action" and atext = "flat_dumps unknown_action"
      and ?kvs2.0 = "[(''action'', JStr ''delete_order'')]" and ?a2.0 = "JStr ''delete_order''"
      and sb = "[live_a]" and s = shop_store]
  note t2 = classification_failures[where state = redacted_state and request = "?req"
      and w = "?w2" and reply = "''Sure! '' @ flat_dumps unknown_action @ '' Anything else?''"
      and ?state2.0 = "classified_state unknown_action" and atext = "flat_dumps unknown_action"
      and ?kvs2.0 = "[(''action'', JStr ''delete_order'')]" and ?a2.0 = "JStr ''delete_order''"
      and sb = "[live_a]" and s = shop_store]
  from t1 h1 h2 f1 have a: "determine_action ?w1 redacted_state
     = Inl (RuntimeError
         ''Language model action failure: Expecting value: line 1 column 1 (char 0)'')"
    by simp
  from t2 h1 h2' f2 h5 have "determine_action ?w2 redacted_state
      = Inr (redacted_state\<lparr>action :=
               Some (json_dumps ?w2 True (JObj [(''action'', JStr ''delete_order'')]))\<rparr>)"
    by blast
  then have b: "determine_action ?w2 redacted_state = Inr (classified_state unknown_action)"
    by (simp add: classified_state_def sample_env_def unknown_action_def)
  from t1 h3 h4 h5 h6 h7 h8 have "execute_action ?w1 (classified_state unknown_action) shop_store
      = (Inr ((classified_state unknown_action)
                \<lparr>tool_result := Some (json_dumps ?w1 False
                                       (JObj (unknown_result ?w1 (JStr ''delete_order'')))),
                  bundles := Some (JArr (merge_spec [live_a]))\<rparr>), shop_store)"
    by blast
  then have c: "execute_action ?w1 (classified_state unknown_action) shop_store
     = (Inr (executed_state unknown_action
               [(''error'', JStr ''Unknown action: delete_order'')] [live_a]), shop_store)"
    by (simp add: ms classified_state_def executed_state_def unknown_result_def sample_env_def)
  have k: "keyable live_a" using h8 by simp
  from a b c k h6 show ?thesis by blast
qed

section \<open>Creating orders\<close>

lemma digit_val_digit_char: "d < 10 \<Longrightarrow> digit_val (digit_char d) = d"
proof -
  assume "d < 10"
  then have "d \<in> {0, 1, 2, 3, 4, 5, 6, 7, 8, 9}" by auto
  then show ?thesis
    by (auto simp: digit_val_def digit_char_def)
qed

lemma nat_of_dec_snoc: "nat_of_dec (s @ [c]) = 10 * nat_of_dec s + digit_val c"
  by (simp add: nat_of_dec_def)

lemma nat_of_dec_dec_nat: "nat_of_dec (dec_nat n) = n"
proof (induction n rule: dec_nat.induct)
  case (1 n)
  show ?case
  proof (cases "n < 10")
    case True
    then show ?thesis
      by (subst dec_nat.simps) (simp add: nat_of_dec_def digit_val_digit_char)
  next
    case False
    then have "nat_of_dec (dec_nat (n div 10)) = n div 10" using "1.IH" by simp
    with False show ?thesis
      by (subst dec_nat.simps) (simp add: nat_of_dec_snoc digit_val_digit_char)
  qed
qed

lemma nat_of_dec_zeros: "nat_of_dec (replicate z CHR ''0'' @ s) = nat_of_dec s"
proof -
  have "foldl (\<lambda>acc c. 10 * acc + digit_val c) 0 (replicate z CHR ''0'') = 0"
    by (induction z) (simp_all add: digit_val_def)
  then show ?thesis by (simp add: nat_of_dec_def)
qed

lemma order_id_of_inj: "order_id_of j = order_id_of k \<Longrightarrow> j = k"
proof -
  assume "order_id_of j = order_id_of k"
  then have "zfill 3 (dec_nat j) = zfill 3 (dec_nat k)" by (simp add: order_id_of_def)
  then have "nat_of_dec (zfill 3 (dec_nat j)) = nat_of_dec (zfill 3 (dec_nat k))" by simp
  then show "j = k" by (simp add: zfill_def nat_of_dec_zeros nat_of_dec_dec_nat)
qed

lemma order_id_of_counter:
  "CHR ''O'' # CHR ''R'' # CHR ''D'' # CHR ''-'' # format_03d (int n) = order_id_of n"
  by (simp add: format_03d_def order_id_of_def)

lemma create_one_ok:
  assumes "c_db_write c = None" "c_bundles_write c = None" "ORDER_COUNTER s = int n"
  shows "create_one c s =
     (Inr (created_ack n),
      s\<lparr>ORDER_COUNTER := int (Suc n),
        ORDERS_DB := dict_set (ORDERS_DB s) (order_id_of n) (order_record c),
        db_file := Some (dict_set (ORDERS_DB s) (order_id_of n) (order_record c), int (Suc n)),
        BUNDLES_STORAGE := dict_set (BUNDLES_STORAGE s) (order_id_of n) (c_bundles c),
        bundles_file := Some (dict_set (BUNDLES_STORAGE s) (order_id_of n) (c_bundles c))\<rparr>)"
  using assms
  by (simp add: create_one_def create_order_def save_db_def save_bundles_def Let_def
        order_id_of_counter created_ack_def order_record_def add.commute)

lemma create_all_ok:
  assumes "\<forall>c\<in>set calls. c_db_write c = None \<and> c_bundles_write c = None"
    and "ORDER_COUNTER s = int n"
    and "create_all calls s = (results, s')"
  shows "length results = length calls \<and> ORDER_COUNTER s' = int (n + length calls)
    \<and> (\<forall>k<length calls.
          results ! k = Inr (created_ack (n + k))
        \<and> map_of (ORDERS_DB s') (order_id_of (n + k)) = Some (order_record (calls ! k))
        \<and> map_of (BUNDLES_STORAGE s') (order_id_of (n + k)) = Some (c_bundles (calls ! k)))
    \<and> (\<forall>i. (\<forall>k<length calls. i \<noteq> order_id_of (n + k)) \<longrightarrow>
          map_of (ORDERS_DB s') i = map_of (ORDERS_DB s) i
        \<and> map_of (BUNDLES_STORAGE s') i = map_of (BUNDLES_STORAGE s) i)
    \<and> (calls \<noteq> [] \<longrightarrow> files_synced s')"
  using assms
proof (induction calls arbitrary: s n results s')
  case Nil
  then show ?case by simp
next
  case (Cons c cs)
  from Cons.prems(1) have okc: "c_db_write c = None" "c_bundles_write c = None"
    and okcs: "\<forall>c\<in>set cs. c_db_write c = None \<and> c_bundles_write c = None" by auto
  define s1 where "s1 = snd (create_one c s)"
  have one: "create_one c s = (Inr (created_ack n), s1)"
    unfolding s1_def by (simp add: create_one_ok[OF okc Cons.prems(2)])
  have s1: "ORDER_COUNTER s1 = int (Suc n)"
    "map_of (ORDERS_DB s1) = (map_of (ORDERS_DB s))(order_id_of n \<mapsto> order_record c)"
    "map_of (BUNDLES_STORAGE s1) = (map_of (BUNDLES_STORAGE s))(order_id_of n \<mapsto> c_bundles c)"
    "files_synced s1"
    unfolding s1_def
    by (simp_all add: create_one_ok[OF okc Cons.prems(2)] map_of_dict_set files_synced_def)
  obtain rs where rest: "create_all cs s1 = (rs, s')" and res: "results = Inr (created_ack n) # rs"
    using Cons.prems(3) one by (auto split: prod.splits)
  note IH = Cons.IH[OF okcs s1(1) rest]
  have len: "length results = length (c # cs)" using IH res by simp
  have cnt: "ORDER_COUNTER s' = int (n + length (c # cs))" using IH by simp
  have frame0: "map_of (ORDERS_DB s') (order_id_of n) = Some (order_record c)
      \<and> map_of (BUNDLES_STORAGE s') (order_id_of n) = Some (c_bundles c)"
  proof -
    have "\<forall>k<length cs. order_id_of n \<noteq> order_id_of (Suc n + k)"
      using order_id_of_inj by fastforce
    with IH have "map_of (ORDERS_DB s') (order_id_of n) = map_of (ORDERS_DB s1) (order_id_of n)
        \<and> map_of (BUNDLES_STORAGE s') (order_id_of n) = map_of (BUNDLES_STORAGE s1) (order_id_of n)"
      by blast
    then show ?thesis by (simp add: s1)
  qed
  have each: "\<forall>k<length (c # cs).
          results ! k = Inr (created_ack (n + k))
        \<and> map_of (ORDERS_DB s') (order_id_of (n + k)) = Some (order_record ((c # cs) ! k))
        \<and> map_of (BUNDLES_STORAGE s') (order_id_of (n + k)) = Some (c_bundles ((c # cs) ! k))"
  proof (intro allI impI)
    fix k assume k: "k < length (c # cs)"
    show "results ! k = Inr (created_ack (n + k))
        \<and> map_of (ORDERS_DB s') (order_id_of (n + k)) = Some (order_record ((c # cs) ! k))
        \<and> map_of (BUNDLES_STORAGE s') (order_id_of (n + k)) = Some (c_bundles ((c # cs) ! k))"
    proof (cases k)
      case 0
      then show ?thesis using frame0 res by simp
    next
      case (Suc j)
      with k have "j < length cs" by simp
      with IH have "rs ! j = Inr (created_ack (Suc n + j))
        \<and> map_of (ORDERS_DB s') (order_id_of (Suc n + j)) = Some (order_record (cs ! j))
        \<and> map_of (BUNDLES_STORAGE s') (order_id_of (Suc n + j)) = Some (c_bundles (cs ! j))"
        by blast
      then show ?thesis using Suc res by simp
    qed
  qed
  have frame: "\<forall>i. (\<forall>k<length (c # cs). i \<noteq> order_id_of (n + k)) \<longrightarrow>
          map_of (ORDERS_DB s') i = map_of (ORDERS_DB s) i
        \<and> map_of (BUNDLES_STORAGE s') i = map_of (BUNDLES_STORAGE s) i"
  proof (intro allI impI)
    fix i assume i: "\<forall>k<length (c # cs). i \<noteq> order_id_of (n + k)"
    then have i0: "i \<noteq> order_id_of n" by fastforce
    have "\<forall>k<length cs. i \<noteq> order_id_of (Suc n + k)"
    proof (intro allI impI)
      fix k assume "k < length cs"
      then have "Suc k < length (c # cs)" by simp
      with i have "i \<noteq> order_id_of (n + Suc k)" by blast
      then show "i \<noteq> order_id_of (Suc n + k)" by simp
    qed
    with IH have "map_of (ORDERS_DB s') i = map_of (ORDERS_DB s1) i
        \<and> map_of (BUNDLES_STORAGE s') i = map_of (BUNDLES_STORAGE s1) i" by blast
    then show "map_of (ORDERS_DB s') i = map_of (ORDERS_DB s) i
        \<and> map_of (BUNDLES_STORAGE s') i = map_of (BUNDLES_STORAGE s) i"
      using i0 by (simp add: s1)
  qed
  have sync: "files_synced s'"
  proof (cases cs)
    case Nil
    with rest have "s' = s1" by simp
    then show ?thesis using s1(4) by simp
  next
    case (Cons a list)
    with IH show ?thesis by simp
  qed
  from len cnt each frame sync show ?case by blast
qed


lemma sample_order_ids:
  "order_id_of 1 = ''ORD-001''" "order_id_of 2 = ''ORD-002''" "order_id_of 3 = ''ORD-003''"
  "order_id_of 999 = ''ORD-999''" "order_id_of 1000 = ''ORD-1000''"
  "order_id_of (Suc 0) = ''ORD-001''" "order_id_of (Suc (Suc 0)) = ''ORD-002''"
  by code_simp+

text \<open>
  C9. Starting from the fresh store (counter 1), in a sequence of calls of
  \<^verbatim>\<open>create_order\<close> whose writes all succeed, the call at position \<open>k\<close> (counted from 0)
  returns the identifier "ORD-" followed by \<open>k + 1\<close> zero-padded to three digits: ORD-001,
  ORD-002, ORD-003 and so on, without gaps. No two positions get the same identifier. At
  the end the store holds, under that identifier, the order of that call with status
  "processing" and the bundles passed to it as its bundle set, in memory and in the
  files. The create branch of the executor calls \<^verbatim>\<open>create_order\<close> with the fields of the
  action object and the bundles of the pipeline state.
\<close>

theorem create_order_ids_sequential:
  assumes "\<forall>c\<in>set calls. c_db_write c = None \<and> c_bundles_write c = None"
    and "k < length calls"
    and "create_all calls fresh_store = (results, s')"
    and "bundles state = Some bs"
  shows "results ! k = Inr [(''order_id'', JStr (order_id_of (k + 1))), (''status'', JStr ''created'')]
       \<and> map_of (ORDERS_DB s') (order_id_of (k + 1)) = Some (order_record (calls ! k))
       \<and> map_of (order_record (calls ! k)) ''status'' = Some (JStr ''processing'')
       \<and> map_of (BUNDLES_STORAGE s') (order_id_of (k + 1)) = Some (c_bundles (calls ! k))
       \<and> db_file s' = Some (ORDERS_DB s', ORDER_COUNTER s')
       \<and> bundles_file s' = Some (BUNDLES_STORAGE s')
       \<and> ORDER_COUNTER s' = 1 + int (length calls)
       \<and> (\<forall>j. order_id_of (j + 1) = order_id_of (k + 1) \<longrightarrow> j = k)
       \<and> order_id_of 1 = ''ORD-001'' \<and> order_id_of 2 = ''ORD-002'' \<and> order_id_of 3 = ''ORD-003''
       \<and> run_action w state s (JObj kvs) (JStr ''create_order'')
           = (case create_order (now w) (db_write w) (bundles_write w)
                     (action_field kvs ''customer'') (action_field kvs ''email'')
                     (action_field kvs ''phone'') (action_field kvs ''address'')
                     (action_field kvs ''items'') bs s of
                (Inl e, s1) \<Rightarrow> (Inl e, s1)
              | (Inr result, s1) \<Rightarrow> (Inr (result, []), s1))"
proof -
  have c0: "ORDER_COUNTER fresh_store = int 1"
    by (simp add: fresh_store_def)
  note all = create_all_ok[OF assms(1) c0 assms(3)]
  from all assms(2) have each: "results ! k = Inr (created_ack (1 + k))"
    "map_of (ORDERS_DB s') (order_id_of (1 + k)) = Some (order_record (calls ! k))"
    "map_of (BUNDLES_STORAGE s') (order_id_of (1 + k)) = Some (c_bundles (calls ! k))"
    by blast+
  from assms(2) have "calls \<noteq> []" by auto
  with all have "files_synced s'" by blast
  then have files: "db_file s' = Some (ORDERS_DB s', ORDER_COUNTER s')"
    "bundles_file s' = Some (BUNDLES_STORAGE s')"
    by (simp_all add: files_synced_def)
  from all have cnt: "ORDER_COUNTER s' = 1 + int (length calls)" by simp
  have inj: "\<forall>j. order_id_of (j + 1) = order_id_of (k + 1) \<longrightarrow> j = k"
    using order_id_of_inj by fastforce
  have status: "map_of (order_record (calls ! k)) ''status'' = Some (JStr ''processing'')"
    by (simp add: order_record_def)
  have run: "run_action w state s (JObj kvs) (JStr ''create_order'')
           = (case create_order (now w) (db_write w) (bundles_write w)
                     (action_field kvs ''customer'') (action_field kvs ''email'')
                     (action_field kvs ''phone'') (action_field kvs ''address'')
                     (action_field kvs ''items'') bs s of
                (Inl e, s1) \<Rightarrow> (Inl e, s1)
              | (Inr result, s1) \<Rightarrow> (Inr (result, []), s1))"
    using assms(4) by (simp add: run_action_def action_field_def)
  from each files cnt inj status run sample_order_ids(1,2,3) show ?thesis
    by (simp add: created_ack_def add.commute)
qed

theorem create_order_ids_sequential_witness:
  "fst (create_all sample_calls fresh_store) ! 1
     = Inr [(''order_id'', JStr ''ORD-002''), (''status'', JStr ''created'')]
   \<and> map_of (ORDERS_DB (snd (create_all sample_calls fresh_store))) ''ORD-002''
       = Some (order_record (sample_call ''[PERSON_2]'' (JArr [live_b, stored_c])))
   \<and> map_of (BUNDLES_STORAGE (snd (create_all sample_calls fresh_store))) ''ORD-002''
       = Some (JArr [live_b, stored_c])
   \<and> ORDER_COUNTER (snd (create_all sample_calls fresh_store)) = 4
   \<and> length sample_calls = 3"
proof -
  have h1: "\<forall>c\<in>set sample_calls. c_db_write c = None \<and> c_bundles_write c = None"
    by (simp add: sample_calls_def sample_call_def)
  have h2: "1 < length sample_calls"
    by (simp add: sample_calls_def)
  have h3: "create_all sample_calls fresh_store
      = (fst (create_all sample_calls fresh_store), snd (create_all sample_calls fresh_store))"
    by simp
  have h4: "bundles redacted_state = Some (JArr [live_a])"
    by (simp add: redacted_state_def)
  have n: "sample_calls ! 1 = sample_call ''[PERSON_2]'' (JArr [live_b, stored_c])"
    "length sample_calls = 3"
    by (simp_all add: sample_calls_def)
  have c: "c_bundles (sample_call ''[PERSON_2]'' (JArr [live_b, stored_c])) = JArr [live_b, stored_c]"
    by (simp add: sample_call_def)
  show ?thesis
    using create_order_ids_sequential[OF h1 h2 h3 h4] n c
    by (simp add: sample_order_ids)
qed

section \<open>Lookup of an order that is not there\<close>

lemma execute_action_miss:
  assumes "action state = Some atext" and "json_loads w atext = Inr (JObj kvs)"
    and "map_of kvs ''action'' = Some (JStr ''get_order'')"
    and "map_of kvs ''order_id'' = Some (JStr order_id)"
    and "map_of (ORDERS_DB s) order_id = None"
    and "map_of (BUNDLES_STORAGE s) order_id = None
         \<or> map_of (BUNDLES_STORAGE s) order_id = Some (JArr [])"
    and "bundles state = Some (JArr sb)"
  shows "execute_action w state s = (merged_with_nothing w state sb not_found, s)"
proof -
  from assms(6) have b: "get_bundles s (JStr order_id) = Inr (JArr [])"
    using get_bundles_absent get_bundles_list by blast
  have o: "get_order s (JStr order_id) = Inr not_found"
    using assms(5) by (simp add: get_order_def)
  show ?thesis
    using assms(1,2,3,4,7) b o
    by (simp add: execute_action_def run_action_def merged_with_nothing_def
        merge_bundles_def split: sum.splits)
qed

lemma create_one_follows:
  assumes "bundles_follow_orders s"
  shows "bundles_follow_orders (snd (create_one c s))"
proof (cases "c_db_write c")
  case (Some m)
  with assms show ?thesis
    by (simp add: create_one_def create_order_def save_db_def Let_def
          bundles_follow_orders_def map_of_dict_set)
next
  case None
  with assms show ?thesis
    by (cases "c_bundles_write c")
       (simp_all add: create_one_def create_order_def save_db_def save_bundles_def Let_def
          bundles_follow_orders_def map_of_dict_set)
qed

lemma create_all_follows:
  "bundles_follow_orders s \<Longrightarrow> bundles_follow_orders (snd (create_all calls s))"
proof (induction calls arbitrary: s)
  case Nil
  then show ?case by simp
next
  case (Cons c cs)
  obtain r s1 where one: "create_one c s = (r, s1)"
    by (cases "create_one c s")
  obtain rs s2 where rest: "create_all cs s1 = (rs, s2)"
    by (cases "create_all cs s1")
  from create_one_follows[OF Cons.prems, of c] one have "bundles_follow_orders s1"
    by simp
  from Cons.IH[OF this] rest have "bundles_follow_orders s2"
    by simp
  with one rest show ?case by simp
qed

text \<open>
  C4, the claim as written fails: in a store with no order \<^verbatim>\<open>ORD-999\<close> but with a bundle
  set saved under that identifier, \<^verbatim>\<open>get_order\<close> answers "not found" and the executor
  still contributes the saved bundle, so the bundles after stage 3 are not the merge of
  the stage-1 bundles with the empty collection.
\<close>

theorem stale_bundles_contributed:
  "map_of (ORDERS_DB stale_store) ''ORD-999'' = None
   \<and> get_order stale_store (JStr ''ORD-999'') = Inr not_found
   \<and> execute_action (sample_env (flat_dumps lookup_action) revealed)
       (classified_state lookup_action) stale_store
     = (Inr (executed_state lookup_action not_found [live_a, stored_c]), stale_store)
   \<and> merge_bundles [live_a] [] = Inr [live_a]
   \<and> [live_a, stored_c] \<noteq> [live_a]"
proof -
  let ?w = "sample_env (flat_dumps lookup_action) revealed"
  have a: "map_of (ORDERS_DB stale_store) ''ORD-999'' = None"
    by (simp add: stale_store_def)
  have b: "get_order stale_store (JStr ''ORD-999'') = Inr not_found"
    by (simp add: get_order_def stale_store_def)
  have g: "get_bundles stale_store (JStr ''ORD-999'') = Inr (JArr [stored_c])"
    by (simp add: get_bundles_def stale_store_def)
  have l: "json_loads ?w (flat_dumps lookup_action) = Inr lookup_action"
    by (simp add: sample_env_def sample_loads_simps)
  have m: "merge_combined [live_a, stored_c] = Inr [live_a, stored_c]"
    by (simp add: merge_combined_def sample_bundle_defs)
  have c: "execute_action ?w (classified_state lookup_action) stale_store
     = (Inr (executed_state lookup_action not_found [live_a, stored_c]), stale_store)"
    unfolding execute_action_def run_action_def
    by (simp add: classified_state_def redacted_state_def l)
       (simp add: lookup_action_def b g m executed_state_def classified_state_def
          redacted_state_def sample_env_def)
  have d: "merge_bundles [live_a] [] = Inr [live_a]"
    by (simp add: merge_bundles_def merge_combined_def sample_bundle_defs)
  have e: "[live_a, stored_c] \<noteq> [live_a]"
    by simp
  from a b c d e show ?thesis by blast
qed

text \<open>
  C4, as amended. For an identifier that has no order and for which the bundle store
  holds no bundle set or an empty one, executing \<^verbatim>\<open>get_order\<close> gives the not-found result
  and contributes no bundles: the state after stage 3 holds the merge of the stage-1
  bundles with the empty collection, and the store is unchanged. In every store that
  calls of \<^verbatim>\<open>create_order\<close> build from the fresh store, an identifier without an order has
  no bundle set.
\<close>

theorem lookup_miss_contributes_nothing:
  assumes "action state = Some atext" and "json_loads w atext = Inr (JObj kvs)"
    and "map_of kvs ''action'' = Some (JStr ''get_order'')"
    and "map_of kvs ''order_id'' = Some (JStr order_id)"
    and "map_of (ORDERS_DB s) order_id = None"
    and "map_of (BUNDLES_STORAGE s) order_id = None
         \<or> map_of (BUNDLES_STORAGE s) order_id = Some (JArr [])"
    and "bundles state = Some (JArr sb)"
  shows "get_order s (JStr order_id) = Inr not_found
       \<and> execute_action w state s = (merged_with_nothing w state sb not_found, s)
       \<and> bundles_follow_orders (snd (create_all calls fresh_store))"
proof -
  have "get_order s (JStr order_id) = Inr not_found"
    using assms(5) by (simp add: get_order_def)
  moreover have "execute_action w state s = (merged_with_nothing w state sb not_found, s)"
    by (rule execute_action_miss[OF assms])
  moreover have "bundles_follow_orders fresh_store"
    by (simp add: bundles_follow_orders_def fresh_store_def)
  then have "bundles_follow_orders (snd (create_all calls fresh_store))"
    by (rule create_all_follows)
  ultimately show ?thesis by blast
qed

theorem lookup_miss_contributes_nothing_witness:
  "get_order shop_store (JStr ''ORD-999'') = Inr not_found
   \<and> execute_action (sample_env (flat_dumps lookup_action) revealed)
       (classified_state lookup_action) shop_store
     = (Inr (executed_state lookup_action not_found [live_a]), shop_store)
   \<and> merge_bundles [live_a] [] = Inr [live_a]
   \<and> map_of (ORDERS_DB (snd (create_all sample_calls fresh_store))) ''ORD-999'' = None
   \<and> map_of (BUNDLES_STORAGE (snd (create_all sample_calls fresh_store))) ''ORD-999'' = None
   \<and> map_of (BUNDLES_STORAGE (snd (create_all sample_calls fresh_store))) ''ORD-002''
       = Some (JArr [live_b, stored_c])"
proof -
  let ?w = "sample_env (flat_dumps lookup_action) revealed"
  have h1: "action (classified_state lookup_action) = Some (flat_dumps lookup_action)"
    by (simp add: classified_state_def)
  have h2: "json_loads ?w (flat_dumps lookup_action)
      = Inr (JObj [(''action'', JStr ''get_order''), (''order_id'', JStr ''ORD-999'')])"
    by (simp add: sample_env_def sample_loads_simps) (simp add: lookup_action_def)
  have h3: "map_of [(''action'', JStr ''get_order''), (''order_id'', JStr ''ORD-999'')] ''action''
      = Some (JStr ''get_order'')"
    by simp
  have h4: "map_of [(''action'', JStr ''get_order''), (''order_id'', JStr ''ORD-999'')] ''order_id''
      = Some (JStr ''ORD-999'')"
    by simp
  have h5: "map_of (ORDERS_DB shop_store) ''ORD-999'' = None"
    by (simp add: shop_store_def)
  have h6: "map_of (BUNDLES_STORAGE shop_store) ''ORD-999'' = None
      \<or> map_of (BUNDLES_STORAGE shop_store) ''ORD-999'' = Some (JArr [])"
    by (simp add: shop_store_def)
  have h7: "bundles (classified_state lookup_action) = Some (JArr [live_a])"
    by (simp add: classified_state_def redacted_state_def)
  have d: "merge_bundles [live_a] [] = Inr [live_a]"
    by (simp add: merge_bundles_def merge_combined_def sample_bundle_defs)
  have m: "merged_with_nothing ?w (classified_state lookup_action) [live_a] not_found
      = Inr (executed_state lookup_action not_found [live_a])"
    by (simp add: merged_with_nothing_def d classified_state_def executed_state_def
          sample_env_def)
  have st: "create_all sample_calls fresh_store
      = (fst (create_all sample_calls fresh_store), snd (create_all sample_calls fresh_store))"
    by simp
  have ok: "\<forall>c\<in>set sample_calls. c_db_write c = None \<and> c_bundles_write c = None"
    by (simp add: sample_calls_def sample_call_def)
  have c0: "ORDER_COUNTER fresh_store = int 1"
    by (simp add: fresh_store_def)
  note all = create_all_ok[OF ok c0 st]
  have o: "map_of (ORDERS_DB (snd (create_all sample_calls fresh_store))) ''ORD-999'' = None"
  proof -
    have "\<forall>k<length sample_calls. ''ORD-999'' \<noteq> order_id_of (1 + k)"
    proof (intro allI impI)
      fix k assume "k < length sample_calls"
      then have "1 + k \<noteq> 999" by (simp add: sample_calls_def)
      then have "order_id_of 999 \<noteq> order_id_of (1 + k)"
        using order_id_of_inj by metis
      then show "''ORD-999'' \<noteq> order_id_of (1 + k)"
        by (simp add: sample_order_ids(4))
    qed
    with all have "map_of (ORDERS_DB (snd (create_all sample_calls fresh_store))) ''ORD-999''
        = map_of (ORDERS_DB fresh_store) ''ORD-999''" by blast
    then show ?thesis by (simp add: fresh_store_def)
  qed
  have b2: "map_of (BUNDLES_STORAGE (snd (create_all sample_calls fresh_store))) ''ORD-002''
       = Some (JArr [live_b, stored_c])"
  proof -
    have "1 < length sample_calls" by (simp add: sample_calls_def)
    with all have "map_of (BUNDLES_STORAGE (snd (create_all sample_calls fresh_store)))
        (order_id_of (1 + 1)) = Some (c_bundles (sample_calls ! 1))" by blast
    then show ?thesis by (simp add: sample_order_ids sample_calls_def sample_call_def)
  qed
  note t = lookup_miss_contributes_nothing[OF h1 h2 h3 h4 h5 h6 h7, of sample_calls]
  have f: "map_of (BUNDLES_STORAGE (snd (create_all sample_calls fresh_store))) ''ORD-999'' = None"
    using t o by (simp add: bundles_follow_orders_def)
  from t m d o f b2 show ?thesis by simp
qed

section \<open>Decrypted lookup\<close>

lemma decrypt_order_failed:
  "call_failed (post w req) \<Longrightarrow>
   decrypt_order w order_id req = Inl (OtherError (failure_text (post w req)))"
  by (simp add: decrypt_order_def response_json_failed)

text \<open>
  C7. For an order in the store (a record with fields) whose bundle set is absent or
  empty, \<^verbatim>\<open>get_order_decrypted\<close> returns the stored fields with the order's identifier
  and the note "Bundles not found for decryption", and sends no request to the redaction
  service.
\<close>

theorem degraded_lookup_without_bundles:
  assumes "map_of (ORDERS_DB s) order_id = Some order" and "order \<noteq> []"
    and "map_of (BUNDLES_STORAGE s) order_id = None
         \<or> map_of (BUNDLES_STORAGE s) order_id = Some (JArr [])"
  shows "get_order_decrypted w s order_id =
           (Inr (dict_with order [(''order_id'', JStr order_id), (''note'', bundles_note)]), [])
       \<and> map_of (dict_with order [(''order_id'', JStr order_id), (''note'', bundles_note)]) ''note''
           = Some (JStr ''Bundles not found for decryption'')
       \<and> (\<forall>k. k \<noteq> ''order_id'' \<and> k \<noteq> ''note'' \<longrightarrow>
             map_of (dict_with order [(''order_id'', JStr order_id), (''note'', bundles_note)]) k
               = map_of order k)"
proof -
  from assms(3) have "get_bundles s (JStr order_id) = Inr (JArr [])"
    using get_bundles_absent get_bundles_list by blast
  then have "get_order_decrypted w s order_id =
           (Inr (dict_with order [(''order_id'', JStr order_id), (''note'', bundles_note)]), [])"
    using assms(1,2) by (simp add: get_order_decrypted_def)
  moreover have "map_of (dict_with order [(''order_id'', JStr order_id), (''note'', bundles_note)]) ''note''
           = Some (JStr ''Bundles not found for decryption'')"
    by (simp add: dict_with_def map_of_dict_set bundles_note_def)
  moreover have "\<forall>k. k \<noteq> ''order_id'' \<and> k \<noteq> ''note'' \<longrightarrow>
             map_of (dict_with order [(''order_id'', JStr order_id), (''note'', bundles_note)]) k
               = map_of order k"
    by (simp add: map_of_dict_with_other)
  ultimately show ?thesis by blast
qed

theorem degraded_lookup_without_bundles_witness:
  "get_order_decrypted (sample_env [] revealed) bare_store ''ORD-001''
     = (Inr (order_ann @ [(''order_id'', JStr ''ORD-001''),
                          (''note'', JStr ''Bundles not found for decryption'')]), [])
   \<and> map_of (dict_with order_ann [(''order_id'', JStr ''ORD-001''), (''note'', bundles_note)])
        ''customer'' = Some (JStr ''[PERSON_1]'')
   \<and> map_of (BUNDLES_STORAGE bare_store) ''ORD-001'' = None"
proof -
  have h1: "map_of (ORDERS_DB bare_store) ''ORD-001'' = Some order_ann"
    by (simp add: bare_store_def)
  have h2: "order_ann \<noteq> []"
    by (simp add: order_ann_def order_record_def)
  have h3: "map_of (BUNDLES_STORAGE bare_store) ''ORD-001'' = None
         \<or> map_of (BUNDLES_STORAGE bare_store) ''ORD-001'' = Some (JArr [])"
    by (simp add: bare_store_def)
  have n: "map_of (BUNDLES_STORAGE bare_store) ''ORD-001'' = None"
    by (simp add: bare_store_def)
  have d: "dict_with order_ann [(''order_id'', JStr ''ORD-001''), (''note'', bundles_note)]
      = order_ann @ [(''order_id'', JStr ''ORD-001''),
                     (''note'', JStr ''Bundles not found for decryption'')]"
    by (simp add: dict_with_def order_ann_def order_record_def bundles_note_def)
  have c: "map_of order_ann ''customer'' = Some (JStr ''[PERSON_1]'')"
    by (simp add: order_ann_def order_record_def sample_call_def)
  note t = degraded_lookup_without_bundles[OF h1 h2 h3, of "sample_env [] revealed"]
  from t have "map_of (dict_with order_ann [(''order_id'', JStr ''ORD-001''), (''note'', bundles_note)])
        ''customer'' = map_of order_ann ''customer''"
    by simp
  with t d c n show ?thesis by simp
qed

text \<open>
  C8. For an order in the store with a non-empty bundle set, when the decrypt call
  fails (transport error, error status, or a body that cannot be decoded),
  \<^verbatim>\<open>get_order_decrypted\<close> does not raise: it returns the stored record, its fields as
  they were, with the order's identifier and a \<^verbatim>\<open>decrypt_error\<close> entry that carries the
  reason of the failure. One request was sent.
\<close>

theorem lookup_decrypt_failure_recoverable:
  assumes "map_of (ORDERS_DB s) order_id = Some order" and "order \<noteq> []"
    and "map_of (BUNDLES_STORAGE s) order_id = Some (JArr bs)" and "bs \<noteq> []"
    and "call_failed (post w (lookup_request w order (JArr bs)))"
  shows "get_order_decrypted w s order_id =
           (Inr (dict_with order
                   [(''order_id'', JStr order_id),
                    (''decrypt_error'',
                     JStr (''Cryptor service error: '' @
                           failure_text (post w (lookup_request w order (JArr bs)))))]),
            [lookup_request w order (JArr bs)])
       \<and> (\<forall>k. k \<noteq> ''order_id'' \<and> k \<noteq> ''decrypt_error'' \<longrightarrow>
             map_of (dict_with order
                   [(''order_id'', JStr order_id),
                    (''decrypt_error'',
                     JStr (''Cryptor service error: '' @
                           failure_text (post w (lookup_request w order (JArr bs)))))]) k
               = map_of order k)"
proof -
  have "get_bundles s (JStr order_id) = Inr (JArr bs)"
    by (rule get_bundles_list[OF assms(3)])
  moreover have "decrypt_order w order_id (lookup_request w order (JArr bs)) =
      Inl (OtherError (failure_text (post w (lookup_request w order (JArr bs)))))"
    by (rule decrypt_order_failed[OF assms(5)])
  ultimately have "get_order_decrypted w s order_id =
           (Inr (dict_with order
                   [(''order_id'', JStr order_id),
                    (''decrypt_error'',
                     JStr (''Cryptor service error: '' @
                           failure_text (post w (lookup_request w order (JArr bs)))))]),
            [lookup_request w order (JArr bs)])"
    using assms(1,2,4)
    by (simp add: get_order_decrypted_def lookup_request_def Let_def)
  then show ?thesis by (simp add: map_of_dict_with_other)
qed

theorem lookup_decrypt_failure_recoverable_witness:
  "fst (get_order_decrypted (sample_env [] unavailable) shop_store ''ORD-001'')
     = Inr (order_ann @
            [(''order_id'', JStr ''ORD-001''),
             (''decrypt_error'',
              JStr ''Cryptor service error: 503 Server Error: Service Unavailable'')])
   \<and> length (snd (get_order_decrypted (sample_env [] unavailable) shop_store ''ORD-001'')) = 1
   \<and> map_of (order_ann @
            [(''order_id'', JStr ''ORD-001''),
             (''decrypt_error'',
              JStr ''Cryptor service error: 503 Server Error: Service Unavailable'')])
        ''email'' = Some (JStr ''[EMAIL_1]'')
   \<and> call_failed unavailable"
proof -
  let ?w = "sample_env [] unavailable"
  have h1: "map_of (ORDERS_DB shop_store) ''ORD-001'' = Some order_ann"
    by (simp add: shop_store_def)
  have h2: "order_ann \<noteq> []"
    by (simp add: order_ann_def order_record_def)
  have h3: "map_of (BUNDLES_STORAGE shop_store) ''ORD-001'' = Some (JArr [live_a])"
    by (simp add: shop_store_def)
  have h4: "[live_a] \<noteq> []"
    by simp
  have p: "post ?w (lookup_request ?w order_ann (JArr [live_a])) = unavailable"
    by (simp add: sample_env_def lookup_request_def)
  have u: "call_failed unavailable"
    by (simp add: unavailable_def)
  have h5: "call_failed (post ?w (lookup_request ?w order_ann (JArr [live_a])))"
    unfolding p by (rule u)
  have f: "failure_text unavailable = ''503 Server Error: Service Unavailable''"
    by (simp add: unavailable_def)
  have d: "dict_with order_ann
             [(''order_id'', JStr ''ORD-001''),
              (''decrypt_error'',
               JStr (''Cryptor service error: '' @ ''503 Server Error: Service Unavailable''))]
      = order_ann @
            [(''order_id'', JStr ''ORD-001''),
             (''decrypt_error'',
              JStr ''Cryptor service error: 503 Server Error: Service Unavailable'')]"
    by (simp add: dict_with_def order_ann_def order_record_def)
  have e: "map_of (order_ann @
            [(''order_id'', JStr ''ORD-001''),
             (''decrypt_error'',
              JStr ''Cryptor service error: 503 Server Error: Service Unavailable'')])
        ''email'' = Some (JStr ''[EMAIL_1]'')"
    by (simp add: order_ann_def order_record_def sample_call_def)
  note t = lookup_decrypt_failure_recoverable[OF h1 h2 h3 h4 h5]
  from t[unfolded p f d] e u show ?thesis by simp
qed

end
